theory Spec2Isabelle
  imports Main "HOL-Library.Sublist"
begin

section \<open>Data model of the LDAP client\<close>

text \<open>
  The client of \<^verbatim>\<open>ldap-client.go\<close> is glue around the connection type of the
  directory library \<^verbatim>\<open>gopkg.in/ldap.v2\<close>. The library and the server behind it are
  not part of the program: they appear here as an environment whose answers are arbitrary
  functions of the calls made so far. Every call the client makes on the library is
  appended to a trace, so that what is sent, and in which order, can be stated.
\<close>

subsection \<open>Values of the library\<close>

text \<open>A connection handle (\<^verbatim>\<open>*ldap.Conn\<close>); the nil pointer is \<open>None\<close> of \<open>conn option\<close>.\<close>

type_synonym conn = nat

text \<open>
  Go's \<^verbatim>\<open>error\<close> values: the ones the library hands back (a result code and a
  message), the ones the client makes with \<^verbatim>\<open>errors.New\<close>, and the run-time panic of
  a method call through a nil connection.
\<close>

datatype error = LdapError nat string | ErrorsNew string | NilPointerPanic

text \<open>\<^verbatim>\<open>tls.Config\<close>, with the two fields the client sets; all others keep their zero value.\<close>

datatype tls_Config = tls_Config (cfg_InsecureSkipVerify: bool) (cfg_ServerName: string)

text \<open>\<^verbatim>\<open>ldap.EntryAttribute\<close> and \<^verbatim>\<open>ldap.Entry\<close>.\<close>

datatype EntryAttribute = EntryAttribute (Name: string) (Values: "string list")

datatype Entry = Entry (DN: string) (EntryAttributes: "EntryAttribute list")

text \<open>
  \<^verbatim>\<open>ldap.SearchRequest\<close> as \<^verbatim>\<open>ldap.NewSearchRequest\<close> fills it: base DN, scope,
  alias dereferencing, size limit, time limit, types-only, filter, attributes. The
  controls are always nil and left out.
\<close>

datatype SearchRequest =
  SearchRequest (sr_BaseDN: string) (sr_Scope: int) (sr_DerefAliases: int) (sr_SizeLimit: int)
    (sr_TimeLimit: int) (sr_TypesOnly: bool) (sr_Filter: string) (sr_Attributes: "string list")

definition ScopeWholeSubtree :: int where
  "ScopeWholeSubtree = 2"

definition NeverDerefAliases :: int where
  "NeverDerefAliases = 0"

text \<open>\<^verbatim>\<open>ldap.Attribute\<close> / \<^verbatim>\<open>ldap.PartialAttribute\<close>: a type and its values.\<close>

datatype PartialAttribute = PartialAttribute (Type: string) (Vals: "string list")

text \<open>\<^verbatim>\<open>ldap.AddRequest\<close>: the DN and the attributes in the order they were added.\<close>

datatype AddRequest = AddRequest (add_DN: string) (add_Attributes: "PartialAttribute list")

text \<open>\<^verbatim>\<open>ldap.ModifyRequest\<close>: the DN and the three lists of changes.\<close>

datatype ModifyRequest =
  ModifyRequest (mod_DN: string) (AddAttributes: "PartialAttribute list")
    (DeleteAttributes: "PartialAttribute list") (ReplaceAttributes: "PartialAttribute list")

text \<open>\<^verbatim>\<open>ldap.NewAddRequest\<close>, \<^verbatim>\<open>AddRequest.Attribute\<close> and \<^verbatim>\<open>ldap.NewModifyRequest\<close>.\<close>

definition NewAddRequest :: "string \<Rightarrow> AddRequest" where
  "NewAddRequest dn = AddRequest dn []"

definition Attribute :: "AddRequest \<Rightarrow> string \<Rightarrow> string list \<Rightarrow> AddRequest" where
  "Attribute a attrType attrVals =
     AddRequest (add_DN a) (add_Attributes a @ [PartialAttribute attrType attrVals])"

definition NewModifyRequest :: "string \<Rightarrow> ModifyRequest" where
  "NewModifyRequest dn = ModifyRequest dn [] [] []"

text \<open>
  \<^verbatim>\<open>Entry.GetAttributeValues\<close> and \<^verbatim>\<open>Entry.GetAttributeValue\<close> of the library: the
  values of the first attribute with the given name (none when there is no such
  attribute), and the first of these values or the empty string.
\<close>

fun GetAttributeValues_list :: "EntryAttribute list \<Rightarrow> string \<Rightarrow> string list" where
  "GetAttributeValues_list [] attribute = []"
| "GetAttributeValues_list (attr # attrs) attribute =
     (if Name attr = attribute then Values attr else GetAttributeValues_list attrs attribute)"

definition GetAttributeValues :: "Entry \<Rightarrow> string \<Rightarrow> string list" where
  "GetAttributeValues e attribute = GetAttributeValues_list (EntryAttributes e) attribute"

definition GetAttributeValue :: "Entry \<Rightarrow> string \<Rightarrow> string" where
  "GetAttributeValue e attribute =
     (case GetAttributeValues e attribute of [] \<Rightarrow> [] | v # _ \<Rightarrow> v)"

subsection \<open>Calls on the library and the environment that answers them\<close>

datatype call =
    CDial string string
  | CDialTLS string string tls_Config
  | CStartTLS conn tls_Config
  | CClose conn
  | CBind conn string string
  | CSearch conn SearchRequest
  | CAdd conn AddRequest
  | CModify conn ModifyRequest

fun is_Bind :: "call \<Rightarrow> bool" where
  "is_Bind (CBind c dn pw) = True"
| "is_Bind other = False"

fun is_StartTLS :: "call \<Rightarrow> bool" where
  "is_StartTLS (CStartTLS c cfg) = True"
| "is_StartTLS other = False"

text \<open>
  The environment: for each library function the client calls, its answer given the
  trace of earlier calls (oldest first) and the arguments. A function that returns a
  connection or a search result together with an error returns one or the other
  (\<open>Inl\<close> the error). \<open>env_Sprintf\<close> is \<^verbatim>\<open>fmt.Sprintf\<close> on a template that the caller
  of the client configures (\<^verbatim>\<open>UserFilter\<close>, \<^verbatim>\<open>GroupFilter\<close>) and one string operand;
  what the standard library makes of an arbitrary template is left open.
\<close>

record ldap_env =
  env_Dial :: "call list \<Rightarrow> string \<Rightarrow> string \<Rightarrow> error + conn"
  env_DialTLS :: "call list \<Rightarrow> string \<Rightarrow> string \<Rightarrow> tls_Config \<Rightarrow> error + conn"
  env_StartTLS :: "call list \<Rightarrow> conn \<Rightarrow> tls_Config \<Rightarrow> error option"
  env_Bind :: "call list \<Rightarrow> conn \<Rightarrow> string \<Rightarrow> string \<Rightarrow> error option"
  env_Search :: "call list \<Rightarrow> conn \<Rightarrow> SearchRequest \<Rightarrow> error + Entry list"
  env_Add :: "call list \<Rightarrow> conn \<Rightarrow> AddRequest \<Rightarrow> error option"
  env_Modify :: "call list \<Rightarrow> conn \<Rightarrow> ModifyRequest \<Rightarrow> error option"
  env_Sprintf :: "string \<Rightarrow> string \<Rightarrow> string"

subsection \<open>Formatting with constant formats\<close>

text \<open>\<^verbatim>\<open>strconv.Itoa\<close>, also the verb \<^verbatim>\<open>%d\<close>: decimal digits with a minus sign.\<close>

definition digit_char :: "nat \<Rightarrow> char" where
  "digit_char d = char_of (48 + d)"

function nat_digits :: "nat \<Rightarrow> string" where
  "nat_digits n = (if n < 10 then [digit_char n] else nat_digits (n div 10) @ [digit_char (n mod 10)])"
  by pat_completeness auto
termination
  by (relation "measure (\<lambda>n. n)") auto

declare nat_digits.simps [simp del]

definition Itoa :: "int \<Rightarrow> string" where
  "Itoa i = (if i < 0 then CHR ''-'' # nat_digits (nat (- i)) else nat_digits (nat i))"

text \<open>
  \<^verbatim>\<open>fmt.Sprintf\<close> for the constant formats of the source
  (\<^verbatim>\<open>"%s:%d"\<close>, \<^verbatim>\<open>"cn=%s,ou=%s,%s"\<close>, \<^verbatim>\<open>"ou=%s,%s"\<close>): \<^verbatim>\<open>%s\<close> takes the next
  operand, a string, \<^verbatim>\<open>%d\<close> the next operand, an integer, and every other character is
  copied. The source never passes these formats an operand of another kind or too few
  operands; on such input this function copies the verb, which is not what Go prints.
\<close>

datatype operand = S string | D int

fun Sprintf :: "string \<Rightarrow> operand list \<Rightarrow> string" where
  "Sprintf [] ops = []"
| "Sprintf [c] ops = [c]"
| "Sprintf (c # v # rest) ops =
     (if c = CHR ''%'' \<and> v = CHR ''s'' then
        (case ops of S s # ops' \<Rightarrow> s @ Sprintf rest ops' | _ \<Rightarrow> c # Sprintf (v # rest) ops)
      else if c = CHR ''%'' \<and> v = CHR ''d'' then
        (case ops of D i # ops' \<Rightarrow> Itoa i @ Sprintf rest ops' | _ \<Rightarrow> c # Sprintf (v # rest) ops)
      else c # Sprintf (v # rest) ops)"

subsection \<open>The client\<close>

record LDAPClient =
  Attributes :: "string list"
  Base :: string
  BindDN :: string
  BindPassword :: string
  GroupFilter :: string
  Host :: string
  ServerName :: string
  UserFilter :: string
  Conn :: "conn option"
  Port :: int
  InsecureSkipVerify :: bool
  UseSSL :: bool
  SkipTLS :: bool

record AddUserAccount =
  Username :: string
  Password :: string
  OU :: string
  UID :: int
  GID :: int

section \<open>Operations\<close>

text \<open>
  Every method takes the environment, the client and the trace so far, and returns its
  Go results together with the client and the trace afterwards. An early
  \<^verbatim>\<open>return\<close> is the branch of a \<open>case\<close> that ends the function. The block
  \<^verbatim>\<open>if lc.BindDN != "" && lc.BindPassword != "" { err := lc.Conn.Bind(...) ... }\<close>
  is a pair of the bind's error and the trace after it, \<open>(None, tr)\<close> when the block is
  skipped. A method call through \<^verbatim>\<open>lc.Conn\<close> while it is nil would panic; that branch
  is written out, and \<open>Connect_ok\<close> below shows that it is never taken.
\<close>

subsection \<open>Connect and Close\<close>

definition Connect :: "ldap_env \<Rightarrow> LDAPClient \<Rightarrow> call list \<Rightarrow> error option \<times> LDAPClient \<times> call list" where
  "Connect env lc tr =
     (case Conn lc of
        Some held \<Rightarrow> (None, lc, tr)
      | None \<Rightarrow>
          let address = Sprintf ''%s:%d'' [S (Host lc), D (Port lc)] in
          if \<not> UseSSL lc then
            (case env_Dial env tr ''tcp'' address of
               Inl err \<Rightarrow> (Some err, lc, tr @ [CDial ''tcp'' address])
             | Inr l \<Rightarrow>
                 let tr1 = tr @ [CDial ''tcp'' address] in
                 if \<not> SkipTLS lc then
                   (case env_StartTLS env tr1 l (tls_Config True []) of
                      Some err \<Rightarrow> (Some err, lc, tr1 @ [CStartTLS l (tls_Config True [])])
                    | None \<Rightarrow> (None, lc\<lparr>Conn := Some l\<rparr>, tr1 @ [CStartTLS l (tls_Config True [])]))
                 else (None, lc\<lparr>Conn := Some l\<rparr>, tr1))
          else
            (let cfg = tls_Config (InsecureSkipVerify lc) (ServerName lc) in
             case env_DialTLS env tr ''tcp'' address cfg of
               Inl err \<Rightarrow> (Some err, lc, tr @ [CDialTLS ''tcp'' address cfg])
             | Inr l \<Rightarrow> (None, lc\<lparr>Conn := Some l\<rparr>, tr @ [CDialTLS ''tcp'' address cfg])))"

definition Close :: "LDAPClient \<Rightarrow> call list \<Rightarrow> LDAPClient \<times> call list" where
  "Close lc tr =
     (case Conn lc of
        Some c \<Rightarrow> (lc\<lparr>Conn := None\<rparr>, tr @ [CClose c])
      | None \<Rightarrow> (lc, tr))"

subsection \<open>Authenticate\<close>

text \<open>
  A Go map result: \<open>None\<close> is the nil map, \<open>Some m\<close> a map made by a map literal.
  Reading a nil map finds no key, so both have the entries of \<open>map_entries\<close>.
\<close>

type_synonym gomap = "(string \<rightharpoonup> string) option"

definition map_entries :: "gomap \<Rightarrow> (string \<rightharpoonup> string)" where
  "map_entries m = (case m of None \<Rightarrow> Map.empty | Some f \<Rightarrow> f)"

text \<open>The search request of \<^verbatim>\<open>Authenticate\<close>: the configured attributes and \<^verbatim>\<open>"dn"\<close>.\<close>

definition user_SearchRequest :: "ldap_env \<Rightarrow> LDAPClient \<Rightarrow> string \<Rightarrow> SearchRequest" where
  "user_SearchRequest env lc username =
     (let attributes = Attributes lc @ [''dn''] in
      SearchRequest (Base lc) ScopeWholeSubtree NeverDerefAliases 0 0 False
        (env_Sprintf env (UserFilter lc) username) attributes)"

text \<open>The loop over the configured attributes that fills the map \<^verbatim>\<open>user\<close>.\<close>

definition collect_user :: "string list \<Rightarrow> Entry \<Rightarrow> (string \<rightharpoonup> string)" where
  "collect_user attrs e = foldl (\<lambda>user attr. user(attr \<mapsto> GetAttributeValue e attr)) Map.empty attrs"

text \<open>
  The end of \<^verbatim>\<open>Authenticate\<close>, from \<^verbatim>\<open>userDN := sr.Entries[0].DN\<close> on, for the single
  entry \<open>e\<close> found: the bind as the user and the rebind as the service user.
\<close>

definition Authenticate_verify ::
  "ldap_env \<Rightarrow> LDAPClient \<Rightarrow> conn \<Rightarrow> call list \<Rightarrow> Entry \<Rightarrow> string \<Rightarrow> (bool \<times> gomap \<times> error option) \<times> call list" where
  "Authenticate_verify env lc c tr e password =
     (let userDN = DN e;
          user = collect_user (Attributes lc) e;
          tr1 = tr @ [CBind c userDN password] in
      case env_Bind env tr c userDN password of
        Some err \<Rightarrow> ((False, Some user, Some err), tr1)
      | None \<Rightarrow>
          if BindDN lc \<noteq> [] \<and> BindPassword lc \<noteq> [] then
            (case env_Bind env tr1 c (BindDN lc) (BindPassword lc) of
               Some err \<Rightarrow> ((True, Some user, Some err), tr1 @ [CBind c (BindDN lc) (BindPassword lc)])
             | None \<Rightarrow> ((True, Some user, None), tr1 @ [CBind c (BindDN lc) (BindPassword lc)]))
          else ((True, Some user, None), tr1))"

text \<open>The middle of \<^verbatim>\<open>Authenticate\<close>: the search and the two checks on the number of entries.\<close>

definition Authenticate_search ::
  "ldap_env \<Rightarrow> LDAPClient \<Rightarrow> conn \<Rightarrow> call list \<Rightarrow> string \<Rightarrow> string \<Rightarrow> (bool \<times> gomap \<times> error option) \<times> call list" where
  "Authenticate_search env lc c tr username password =
     (let searchRequest = user_SearchRequest env lc username;
          tr1 = tr @ [CSearch c searchRequest] in
      case env_Search env tr c searchRequest of
        Inl err \<Rightarrow> ((False, None, Some err), tr1)
      | Inr entries \<Rightarrow>
          if length entries < 1 then ((False, None, Some (ErrorsNew ''User does not exist'')), tr1)
          else if length entries > 1 then ((False, None, Some (ErrorsNew ''Too many entries returned'')), tr1)
          else Authenticate_verify env lc c tr1 (entries ! 0) password)"

text \<open>\<^verbatim>\<open>Authenticate\<close>: connect, bind as the service user when configured, then the rest.\<close>

definition Authenticate ::
  "ldap_env \<Rightarrow> LDAPClient \<Rightarrow> call list \<Rightarrow> string \<Rightarrow> string \<Rightarrow> (bool \<times> gomap \<times> error option) \<times> LDAPClient \<times> call list" where
  "Authenticate env lc tr username password =
     (case Connect env lc tr of
        (Some err, lc1, tr1) \<Rightarrow> ((False, None, Some err), lc1, tr1)
      | (None, lc1, tr1) \<Rightarrow>
          (case Conn lc1 of
             None \<Rightarrow> ((False, None, Some NilPointerPanic), lc1, tr1)
           | Some c \<Rightarrow>
               (case (if BindDN lc1 \<noteq> [] \<and> BindPassword lc1 \<noteq> []
                      then (env_Bind env tr1 c (BindDN lc1) (BindPassword lc1),
                            tr1 @ [CBind c (BindDN lc1) (BindPassword lc1)])
                      else (None, tr1)) of
                  (Some err, tr2) \<Rightarrow> ((False, None, Some err), lc1, tr2)
                | (None, tr2) \<Rightarrow>
                    (let (res, tr3) = Authenticate_search env lc1 c tr2 username password
                     in (res, lc1, tr3)))))"

subsection \<open>Filter and GetGroupsOfUser\<close>

text \<open>The three nested loops of \<^verbatim>\<open>Filter\<close>, each appending to \<^verbatim>\<open>result\<close>.\<close>

definition flatten_values :: "string list \<Rightarrow> string list \<Rightarrow> string list" where
  "flatten_values result vals = foldl (\<lambda>result v. result @ [v]) result vals"

definition flatten_attributes :: "string list \<Rightarrow> EntryAttribute list \<Rightarrow> string list" where
  "flatten_attributes result attrs = foldl (\<lambda>result attr. flatten_values result (Values attr)) result attrs"

definition flatten_entries :: "string list \<Rightarrow> Entry list \<Rightarrow> string list" where
  "flatten_entries result entries =
     foldl (\<lambda>result entry. flatten_attributes result (EntryAttributes entry)) result entries"

text \<open>A Go slice result: \<open>None\<close> is the nil slice.\<close>

definition Filter ::
  "ldap_env \<Rightarrow> LDAPClient \<Rightarrow> call list \<Rightarrow> string \<Rightarrow> string list \<Rightarrow> (string list option \<times> error option) \<times> LDAPClient \<times> call list" where
  "Filter env lc tr filter_expr attributes =
     (case Connect env lc tr of
        (Some err, lc1, tr1) \<Rightarrow> ((None, Some err), lc1, tr1)
      | (None, lc1, tr1) \<Rightarrow>
          (case Conn lc1 of
             None \<Rightarrow> ((None, Some NilPointerPanic), lc1, tr1)
           | Some c \<Rightarrow>
               let searchRequest = SearchRequest (Base lc1) ScopeWholeSubtree NeverDerefAliases 0 0 False
                                     filter_expr attributes;
                   tr2 = tr1 @ [CSearch c searchRequest] in
               case env_Search env tr1 c searchRequest of
                 Inl err \<Rightarrow> ((None, Some err), lc1, tr2)
               | Inr entries \<Rightarrow> ((Some (flatten_entries [] entries), None), lc1, tr2)))"

definition GetGroupsOfUser ::
  "ldap_env \<Rightarrow> LDAPClient \<Rightarrow> call list \<Rightarrow> string \<Rightarrow> (string list option \<times> error option) \<times> LDAPClient \<times> call list" where
  "GetGroupsOfUser env lc tr username =
     Filter env lc tr (env_Sprintf env (GroupFilter lc) username) [''cn'']"

subsection \<open>AddUser and AddUserAccount\<close>

definition AddUser ::
  "ldap_env \<Rightarrow> LDAPClient \<Rightarrow> call list \<Rightarrow> string \<Rightarrow> string \<Rightarrow> string \<Rightarrow> error option \<times> LDAPClient \<times> call list" where
  "AddUser env lc tr username password ou =
     (case Connect env lc tr of
        (Some err, lc1, tr1) \<Rightarrow> (Some err, lc1, tr1)
      | (None, lc1, tr1) \<Rightarrow>
          (case Conn lc1 of
             None \<Rightarrow> (Some NilPointerPanic, lc1, tr1)
           | Some c \<Rightarrow>
               (case (if BindDN lc1 \<noteq> [] \<and> BindPassword lc1 \<noteq> []
                      then (env_Bind env tr1 c (BindDN lc1) (BindPassword lc1),
                            tr1 @ [CBind c (BindDN lc1) (BindPassword lc1)])
                      else (None, tr1)) of
                  (Some err, tr2) \<Rightarrow> (Some err, lc1, tr2)
                | (None, tr2) \<Rightarrow>
                    let userDN = Sprintf ''cn=%s,ou=%s,%s'' [S username, S ou, S (Base lc1)];
                        addRequest = NewAddRequest userDN;
                        addRequest = Attribute addRequest ''objectClass'' [''inetOrgPerson''];
                        addRequest = Attribute addRequest ''userPassword'' [password];
                        addRequest = Attribute addRequest ''sn'' [username];
                        addRequest = Attribute addRequest ''uid'' [username] in
                    (env_Add env tr2 c addRequest, lc1, tr2 @ [CAdd c addRequest]))))"

definition AddUserAccount ::
  "ldap_env \<Rightarrow> LDAPClient \<Rightarrow> call list \<Rightarrow> AddUserAccount \<Rightarrow> error option \<times> LDAPClient \<times> call list" where
  "AddUserAccount env lc tr account =
     (case Connect env lc tr of
        (Some err, lc1, tr1) \<Rightarrow> (Some err, lc1, tr1)
      | (None, lc1, tr1) \<Rightarrow>
          (case Conn lc1 of
             None \<Rightarrow> (Some NilPointerPanic, lc1, tr1)
           | Some c \<Rightarrow>
               (case (if BindDN lc1 \<noteq> [] \<and> BindPassword lc1 \<noteq> []
                      then (env_Bind env tr1 c (BindDN lc1) (BindPassword lc1),
                            tr1 @ [CBind c (BindDN lc1) (BindPassword lc1)])
                      else (None, tr1)) of
                  (Some err, tr2) \<Rightarrow> (Some err, lc1, tr2)
                | (None, tr2) \<Rightarrow>
                    let userDN = Sprintf ''cn=%s,ou=%s,%s''
                                   [S (Username account), S (OU account), S (Base lc1)];
                        addRequest = NewAddRequest userDN;
                        addRequest = Attribute addRequest ''objectClass'' [''inetOrgPerson'', ''posixAccount''];
                        addRequest = Attribute addRequest ''uidNumber'' [Itoa (UID account)];
                        addRequest = Attribute addRequest ''gidNumber'' [Itoa (GID account)];
                        addRequest = Attribute addRequest ''userPassword'' [Password account];
                        addRequest = Attribute addRequest ''homeDirectory'' [''/home/'' @ Username account];
                        addRequest = Attribute addRequest ''loginShell'' [''/bin/bash''];
                        addRequest = Attribute addRequest ''sn'' [Username account];
                        addRequest = Attribute addRequest ''uid'' [Username account] in
                    (env_Add env tr2 c addRequest, lc1, tr2 @ [CAdd c addRequest]))))"

subsection \<open>ChangeAttribute and its wrappers\<close>

definition ChangeAttribute ::
  "ldap_env \<Rightarrow> LDAPClient \<Rightarrow> call list \<Rightarrow> string \<Rightarrow> string \<Rightarrow> string list \<Rightarrow> error option \<times> LDAPClient \<times> call list" where
  "ChangeAttribute env lc tr dn attribute vals =
     (case Connect env lc tr of
        (Some err, lc1, tr1) \<Rightarrow> (Some err, lc1, tr1)
      | (None, lc1, tr1) \<Rightarrow>
          (case Conn lc1 of
             None \<Rightarrow> (Some NilPointerPanic, lc1, tr1)
           | Some c \<Rightarrow>
               (case (if BindDN lc1 \<noteq> [] \<and> BindPassword lc1 \<noteq> []
                      then (env_Bind env tr1 c (BindDN lc1) (BindPassword lc1),
                            tr1 @ [CBind c (BindDN lc1) (BindPassword lc1)])
                      else (None, tr1)) of
                  (Some err, tr2) \<Rightarrow> (Some err, lc1, tr2)
                | (None, tr2) \<Rightarrow>
                    let modifyRequest = NewModifyRequest dn;
                        attr = PartialAttribute attribute vals;
                        attributes = [];
                        modifyRequest = ModifyRequest (mod_DN modifyRequest) (AddAttributes modifyRequest)
                                          (DeleteAttributes modifyRequest) (attributes @ [attr]) in
                    (env_Modify env tr2 c modifyRequest, lc1, tr2 @ [CModify c modifyRequest]))))"

definition ChangeMembers ::
  "ldap_env \<Rightarrow> LDAPClient \<Rightarrow> call list \<Rightarrow> string list \<Rightarrow> string \<Rightarrow> string \<Rightarrow> error option \<times> LDAPClient \<times> call list" where
  "ChangeMembers env lc tr members groupname ou =
     (let dn = Sprintf ''cn=%s,ou=%s,%s'' [S groupname, S ou, S (Base lc)] in
      ChangeAttribute env lc tr dn ''memberUid'' members)"

definition ChangeDescription ::
  "ldap_env \<Rightarrow> LDAPClient \<Rightarrow> call list \<Rightarrow> string \<Rightarrow> string \<Rightarrow> error option \<times> LDAPClient \<times> call list" where
  "ChangeDescription env lc tr description ou =
     (let dn = Sprintf ''ou=%s,%s'' [S ou, S (Base lc)] in
      ChangeAttribute env lc tr dn ''description'' [description])"

definition ChangePassword ::
  "ldap_env \<Rightarrow> LDAPClient \<Rightarrow> call list \<Rightarrow> string \<Rightarrow> string \<Rightarrow> string \<Rightarrow> error option \<times> LDAPClient \<times> call list" where
  "ChangePassword env lc tr password username ou =
     (let dn = Sprintf ''cn=%s,ou=%s,%s'' [S username, S ou, S (Base lc)] in
      ChangeAttribute env lc tr dn ''userPassword'' [password])"

section \<open>A small directory for concrete runs\<close>

text \<open>
  One entry, a read-only service user and the configuration of \<^verbatim>\<open>example_test.go\<close>
  (with shorter credentials). The environment accepts the service user's and the
  entry's password, finds the entry under the filter \<^verbatim>\<open>(uid=alice)\<close> and formats a
  filter template with \<^verbatim>\<open>%s\<close> as \<open>Sprintf\<close> does.
\<close>

definition example_entry :: Entry where
  "example_entry = Entry ''uid=alice,dc=example,dc=com''
     [EntryAttribute ''givenName'' [''Alice''],
      EntryAttribute ''mail'' [''a@example.com'', ''alice@example.com''],
      EntryAttribute ''uid'' [''alice'']]"

definition example_env :: ldap_env where
  "example_env =
     \<lparr>env_Dial = (\<lambda>tr network address. Inr 1),
      env_DialTLS = (\<lambda>tr network address cfg. Inr 2),
      env_StartTLS = (\<lambda>tr c cfg. None),
      env_Bind = (\<lambda>tr c dn pw.
         if (dn = ''cn=ro,dc=example,dc=com'' \<and> pw = ''ropw'') \<or> (dn = DN example_entry \<and> pw = ''secret'')
         then None else Some (LdapError 49 ''Invalid Credentials'')),
      env_Search = (\<lambda>tr c req. if sr_Filter req = ''(uid=alice)'' then Inr [example_entry] else Inr []),
      env_Add = (\<lambda>tr c req. None),
      env_Modify = (\<lambda>tr c req. None),
      env_Sprintf = (\<lambda>format a. Sprintf format [S a])\<rparr>"

definition example_client :: LDAPClient where
  "example_client =
     \<lparr>Attributes = [''givenName'', ''sn'', ''mail'', ''uid''], Base = ''dc=example,dc=com'',
      BindDN = ''cn=ro,dc=example,dc=com'', BindPassword = ''ropw'',
      GroupFilter = ''(memberUid=%s)'', Host = ''ldap.example.com'', ServerName = [],
      UserFilter = ''(uid=%s)'', Conn = None, Port = 389, InsecureSkipVerify = False,
      UseSSL = False, SkipTLS = False\<rparr>"

text \<open>The same directory when the server refuses every bind after the fifth call.\<close>

definition busy_env :: ldap_env where
  "busy_env = example_env\<lparr>env_Bind := (\<lambda>tr c dn pw.
     if 5 \<le> length tr then Some (LdapError 51 ''Busy'') else env_Bind example_env tr c dn pw)\<rparr>"

text \<open>The same directory when no connection can be opened.\<close>

definition offline_env :: ldap_env where
  "offline_env = example_env\<lparr>env_Dial := (\<lambda>tr network address. Inl (LdapError 200 ''Network Error'')),
     env_DialTLS := (\<lambda>tr network address cfg. Inl (LdapError 200 ''Network Error''))\<rparr>"

text \<open>The same directory when the server refuses the StartTLS upgrade.\<close>

definition no_tls_env :: ldap_env where
  "no_tls_env = example_env\<lparr>env_StartTLS := (\<lambda>tr c cfg. Some (LdapError 52 ''Unavailable''))\<rparr>"

text \<open>The same directory when every search finds the entry twice.\<close>

definition double_env :: ldap_env where
  "double_env = example_env\<lparr>env_Search := (\<lambda>tr c req. Inr [example_entry, example_entry])\<rparr>"

section \<open>Properties\<close>

subsection \<open>Formatting, connecting and the loops\<close>

lemma Sprintf_address: "Sprintf ''%s:%d'' [S h, D p] = h @ '':'' @ Itoa p"
  by simp

lemma Sprintf_cn_ou: "Sprintf ''cn=%s,ou=%s,%s'' [S a, S b, S c] = ''cn='' @ a @ '',ou='' @ b @ '','' @ c"
  by simp

lemma Sprintf_ou: "Sprintf ''ou=%s,%s'' [S b, S c] = ''ou='' @ b @ '','' @ c"
  by simp

lemma Connect_held: "Conn lc = Some c \<Longrightarrow> Connect env lc tr = (None, lc, tr)"
  by (simp add: Connect_def)

lemma Connect_error:
  "Connect env lc tr = (Some err, lc', tr') \<Longrightarrow> lc' = lc \<and> Conn lc = None"
  by (auto simp: Connect_def Let_def split: option.splits sum.splits if_splits)

lemma Connect_ok:
  "Connect env lc tr = (None, lc', tr') \<Longrightarrow> \<exists>c. Conn lc' = Some c \<and> lc' = lc\<lparr>Conn := Some c\<rparr>"
  by (auto simp: Connect_def Let_def split: option.splits sum.splits if_splits)

lemma Connect_trace:
  "Connect env lc tr = (r, lc', tr') \<Longrightarrow> \<exists>new. tr' = tr @ new \<and> filter is_Bind new = []"
  by (auto simp: Connect_def Let_def split: option.splits sum.splits if_splits)

lemma collect_user_acc:
  "foldl (\<lambda>user attr. user(attr \<mapsto> g attr)) m attrs =
     (\<lambda>a. if a \<in> set attrs then Some (g a) else m a)"
proof (induction attrs arbitrary: m)
  case Nil
  show ?case by simp
next
  case (Cons x xs)
  show ?case unfolding foldl_Cons Cons.IH by (rule ext) simp
qed

lemma collect_user_eq:
  "collect_user attrs e = (\<lambda>a. if a \<in> set attrs then Some (GetAttributeValue e a) else None)"
  unfolding collect_user_def collect_user_acc by simp

lemma flatten_values_eq: "flatten_values result vals = result @ vals"
  unfolding flatten_values_def by (induction vals arbitrary: result) simp_all

lemma flatten_attributes_eq:
  "flatten_attributes result attrs = result @ concat (map Values attrs)"
  unfolding flatten_attributes_def
  by (induction attrs arbitrary: result) (simp_all add: flatten_values_eq)

lemma flatten_entries_eq:
  "flatten_entries result entries =
     result @ concat (map (\<lambda>entry. concat (map Values (EntryAttributes entry))) entries)"
  unfolding flatten_entries_def
  by (induction entries arbitrary: result) (simp_all add: flatten_attributes_eq)

lemma Authenticate_verify_Conn:
  "Authenticate_verify env (lc\<lparr>Conn := x\<rparr>) c tr e p = Authenticate_verify env lc c tr e p"
  by (simp add: Authenticate_verify_def Let_def split: option.splits)

lemma user_SearchRequest_Conn:
  "user_SearchRequest env (lc\<lparr>Conn := x\<rparr>) u = user_SearchRequest env lc u"
  by (simp add: user_SearchRequest_def)

lemma Authenticate_search_Conn:
  "Authenticate_search env (lc\<lparr>Conn := x\<rparr>) c tr u p = Authenticate_search env lc c tr u p"
  by (simp add: Authenticate_search_def Authenticate_verify_Conn user_SearchRequest_Conn Let_def
        split: sum.splits)

lemma Authenticate_connected:
  assumes "Connect env lc tr = (None, lc1, tr1)" and "Conn lc1 = Some c"
  shows "Authenticate env lc tr u p =
     (if BindDN lc \<noteq> [] \<and> BindPassword lc \<noteq> [] then
        (case env_Bind env tr1 c (BindDN lc) (BindPassword lc) of
           Some err \<Rightarrow> ((False, None, Some err), lc1, tr1 @ [CBind c (BindDN lc) (BindPassword lc)])
         | None \<Rightarrow>
             (fst (Authenticate_search env lc c (tr1 @ [CBind c (BindDN lc) (BindPassword lc)]) u p), lc1,
              snd (Authenticate_search env lc c (tr1 @ [CBind c (BindDN lc) (BindPassword lc)]) u p)))
      else (fst (Authenticate_search env lc c tr1 u p), lc1, snd (Authenticate_search env lc c tr1 u p)))"
proof -
  from Connect_ok [OF assms(1)] assms(2) have lc1: "lc1 = lc\<lparr>Conn := Some c\<rparr>" by auto
  show ?thesis
    unfolding Authenticate_def assms(1)
    by (simp add: lc1 Authenticate_search_Conn split: option.splits prod.splits)
qed

lemma Authenticate_search_none:
  assumes "env_Search env tr c (user_SearchRequest env lc u) = Inr []"
  shows "Authenticate_search env lc c tr u p =
     ((False, None, Some (ErrorsNew ''User does not exist'')), tr @ [CSearch c (user_SearchRequest env lc u)])"
  using assms by (simp add: Authenticate_search_def)

lemma Authenticate_search_many:
  assumes "env_Search env tr c (user_SearchRequest env lc u) = Inr entries" and "length entries > 1"
  shows "Authenticate_search env lc c tr u p =
     ((False, None, Some (ErrorsNew ''Too many entries returned'')), tr @ [CSearch c (user_SearchRequest env lc u)])"
  using assms by (auto simp: Authenticate_search_def Let_def)

lemma Authenticate_search_one:
  assumes "env_Search env tr c (user_SearchRequest env lc u) = Inr [e]"
  shows "Authenticate_search env lc c tr u p =
     Authenticate_verify env lc c (tr @ [CSearch c (user_SearchRequest env lc u)]) e p"
  using assms by (simp add: Authenticate_search_def)

lemma Authenticate_verify_result:
  "fst (Authenticate_verify env lc c tr e p) =
     (case env_Bind env tr c (DN e) p of
        Some err \<Rightarrow> (False, Some (collect_user (Attributes lc) e), Some err)
      | None \<Rightarrow>
          (True, Some (collect_user (Attributes lc) e),
           if BindDN lc \<noteq> [] \<and> BindPassword lc \<noteq> []
           then env_Bind env (tr @ [CBind c (DN e) p]) c (BindDN lc) (BindPassword lc) else None))"
  by (simp add: Authenticate_verify_def Let_def split: option.splits)

lemma Authenticate_found:
  assumes "Connect env lc tr = (None, lc1, tr1)" and "Conn lc1 = Some c"
    and "BindDN lc \<noteq> [] \<and> BindPassword lc \<noteq> [] \<longrightarrow> env_Bind env tr1 c (BindDN lc) (BindPassword lc) = None"
    and "tr2 = (if BindDN lc \<noteq> [] \<and> BindPassword lc \<noteq> [] then tr1 @ [CBind c (BindDN lc) (BindPassword lc)] else tr1)"
    and "env_Search env tr2 c (user_SearchRequest env lc username) = Inr [e]"
  shows "fst (Authenticate env lc tr username password) =
           fst (Authenticate_verify env lc c (tr2 @ [CSearch c (user_SearchRequest env lc username)]) e password)"
  using assms(3,4,5)
  by (auto simp: Authenticate_connected [OF assms(1,2)] Authenticate_search_one)

lemma Itoa_389: "Itoa 389 = ''389''"
  by code_simp

lemma Connect_example:
  "Connect example_env example_client [] =
     (None, example_client\<lparr>Conn := Some 1\<rparr>,
      [CDial ''tcp'' ''ldap.example.com:389'', CStartTLS 1 (tls_Config True [])])"
  by (simp add: Connect_def example_env_def example_client_def Itoa_389)

subsection \<open>Connect\<close>

text \<open>
  C6. \<^verbatim>\<open>Connect\<close> on a client that holds a connection returns no error and changes
  neither the client nor the trace. Whenever \<^verbatim>\<open>Connect\<close> returns an error (the dial,
  the TLS dial or the StartTLS upgrade failed), the client is unchanged and its
  connection field was and stays absent.
\<close>

theorem Connect_noop_or_no_connection:
  "(\<forall>c. Conn lc = Some c \<longrightarrow> Connect env lc tr = (None, lc, tr)) \<and>
   (\<forall>err lc' tr'. Connect env lc tr = (Some err, lc', tr') \<longrightarrow>
      Conn lc = None \<and> lc' = lc \<and> Conn lc' = None)"
proof (intro conjI allI impI)
  fix c assume "Conn lc = Some c"
  then show "Connect env lc tr = (None, lc, tr)" by (rule Connect_held)
next
  fix err lc' tr' assume e: "Connect env lc tr = (Some err, lc', tr')"
  from Connect_error [OF e] show "Conn lc = None" "lc' = lc" "Conn lc' = None" by simp_all
qed

theorem Connect_noop_or_no_connection_witness:
  "Connect example_env (example_client\<lparr>Conn := Some 7\<rparr>) [CBind 7 ''a'' ''b''] =
     (None, example_client\<lparr>Conn := Some 7\<rparr>, [CBind 7 ''a'' ''b'']) \<and>
   Connect offline_env example_client [] =
     (Some (LdapError 200 ''Network Error''), example_client, [CDial ''tcp'' ''ldap.example.com:389'']) \<and>
   Connect offline_env (example_client\<lparr>UseSSL := True\<rparr>) [] =
     (Some (LdapError 200 ''Network Error''), example_client\<lparr>UseSSL := True\<rparr>,
      [CDialTLS ''tcp'' ''ldap.example.com:389'' (tls_Config False [])]) \<and>
   Connect no_tls_env example_client [] =
     (Some (LdapError 52 ''Unavailable''), example_client,
      [CDial ''tcp'' ''ldap.example.com:389'', CStartTLS 1 (tls_Config True [])]) \<and>
   Conn example_client = None \<and> Conn (example_client\<lparr>UseSSL := True\<rparr>) = None"
proof -
  have held: "Conn (example_client\<lparr>Conn := Some 7\<rparr>) = Some 7" by simp
  have dial: "Connect offline_env example_client [] =
     (Some (LdapError 200 ''Network Error''), example_client, [CDial ''tcp'' ''ldap.example.com:389''])"
    by (simp add: Connect_def offline_env_def example_env_def example_client_def Itoa_389)
  have dialtls: "Connect offline_env (example_client\<lparr>UseSSL := True\<rparr>) [] =
     (Some (LdapError 200 ''Network Error''), example_client\<lparr>UseSSL := True\<rparr>,
      [CDialTLS ''tcp'' ''ldap.example.com:389'' (tls_Config False [])])"
    by (simp add: Connect_def offline_env_def example_env_def example_client_def Itoa_389)
  have starttls: "Connect no_tls_env example_client [] =
     (Some (LdapError 52 ''Unavailable''), example_client,
      [CDial ''tcp'' ''ldap.example.com:389'', CStartTLS 1 (tls_Config True [])])"
    by (simp add: Connect_def no_tls_env_def example_env_def example_client_def Itoa_389)
  from Connect_noop_or_no_connection [where lc = "example_client\<lparr>Conn := Some 7\<rparr>"
      and env = example_env and tr = "[CBind 7 ''a'' ''b'']"] held
  have 1: "Connect example_env (example_client\<lparr>Conn := Some 7\<rparr>) [CBind 7 ''a'' ''b''] =
     (None, example_client\<lparr>Conn := Some 7\<rparr>, [CBind 7 ''a'' ''b''])" by blast
  from Connect_noop_or_no_connection [where lc = example_client and env = offline_env and tr = "[]"] dial
  have 2: "Conn example_client = None" by blast
  from Connect_noop_or_no_connection [where lc = "example_client\<lparr>UseSSL := True\<rparr>"
      and env = offline_env and tr = "[]"] dialtls
  have 3: "Conn (example_client\<lparr>UseSSL := True\<rparr>) = None" by blast
  show ?thesis using 1 2 3 dial dialtls starttls by simp
qed

subsection \<open>Close\<close>

text \<open>
  C7. \<^verbatim>\<open>Close\<close> has no error result. Without a held connection it changes nothing;
  with one it closes that connection and clears the field; afterwards no connection is
  held, and a second \<^verbatim>\<open>Close\<close> right after the first is a no-op.
\<close>

theorem Close_idempotent:
  "(Conn lc = None \<longrightarrow> Close lc tr = (lc, tr)) \<and>
   (\<forall>c. Conn lc = Some c \<longrightarrow> Close lc tr = (lc\<lparr>Conn := None\<rparr>, tr @ [CClose c])) \<and>
   Conn (fst (Close lc tr)) = None \<and>
   Close (fst (Close lc tr)) (snd (Close lc tr)) = Close lc tr"
  by (cases "Conn lc") (simp_all add: Close_def)

theorem Close_idempotent_witness:
  "Close example_client [] = (example_client, []) \<and>
   Close (example_client\<lparr>Conn := Some 1\<rparr>) [] = (example_client, [CClose 1]) \<and>
   Close (fst (Close (example_client\<lparr>Conn := Some 1\<rparr>) [])) (snd (Close (example_client\<lparr>Conn := Some 1\<rparr>) [])) =
     (example_client, [CClose 1])"
proof -
  have absent: "Conn example_client = None" by (simp add: example_client_def)
  have held: "Conn (example_client\<lparr>Conn := Some 1\<rparr>) = Some 1" by simp
  have upd: "example_client\<lparr>Conn := None\<rparr> = example_client"
    by (simp add: example_client_def)
  from Close_idempotent [where lc = example_client and tr = "[]"] absent
  have 1: "Close example_client [] = (example_client, [])" by blast
  from Close_idempotent [where lc = "example_client\<lparr>Conn := Some 1\<rparr>" and tr = "[]"] held
  have 2: "Close (example_client\<lparr>Conn := Some 1\<rparr>) [] = (example_client\<lparr>Conn := Some 1\<rparr>\<lparr>Conn := None\<rparr>, [] @ [CClose 1])"
    and 3: "Close (fst (Close (example_client\<lparr>Conn := Some 1\<rparr>) [])) (snd (Close (example_client\<lparr>Conn := Some 1\<rparr>) [])) =
      Close (example_client\<lparr>Conn := Some 1\<rparr>) []"
    by blast+
  show ?thesis using 1 2 3 by (simp add: upd)
qed

subsection \<open>TLS configuration of Connect\<close>

text \<open>
  C8. With \<^verbatim>\<open>UseSSL\<close> and \<^verbatim>\<open>SkipTLS\<close> both false, a \<^verbatim>\<open>Connect\<close> that opens a
  connection dials in plaintext and then calls StartTLS with \<^verbatim>\<open>InsecureSkipVerify: true\<close>
  and no server name. Every StartTLS call of \<^verbatim>\<open>Connect\<close> carries that configuration,
  and without \<^verbatim>\<open>UseSSL\<close> neither the result nor the calls depend on the client's
  \<^verbatim>\<open>InsecureSkipVerify\<close> and \<^verbatim>\<open>ServerName\<close>. With \<^verbatim>\<open>UseSSL\<close> the single call is
  the TLS dial with the client's \<^verbatim>\<open>InsecureSkipVerify\<close> and \<^verbatim>\<open>ServerName\<close>.
\<close>

theorem Connect_StartTLS_skips_verification:
  "(Conn lc = None \<and> \<not> UseSSL lc \<and> \<not> SkipTLS lc \<longrightarrow>
      (\<forall>l. env_Dial env tr ''tcp'' (Host lc @ '':'' @ Itoa (Port lc)) = Inr l \<longrightarrow>
         snd (snd (Connect env lc tr)) =
           tr @ [CDial ''tcp'' (Host lc @ '':'' @ Itoa (Port lc)), CStartTLS l (tls_Config True [])])) \<and>
   (\<forall>c cfg. CStartTLS c cfg \<in> set (drop (length tr) (snd (snd (Connect env lc tr)))) \<longrightarrow>
      cfg = tls_Config True [] \<and> \<not> UseSSL lc \<and> \<not> SkipTLS lc) \<and>
   (\<not> UseSSL lc \<longrightarrow>
      (\<forall>b s. fst (Connect env (lc\<lparr>InsecureSkipVerify := b, ServerName := s\<rparr>) tr) = fst (Connect env lc tr) \<and>
         snd (snd (Connect env (lc\<lparr>InsecureSkipVerify := b, ServerName := s\<rparr>) tr)) = snd (snd (Connect env lc tr)))) \<and>
   (Conn lc = None \<and> UseSSL lc \<longrightarrow>
      snd (snd (Connect env lc tr)) =
        tr @ [CDialTLS ''tcp'' (Host lc @ '':'' @ Itoa (Port lc))
                (tls_Config (InsecureSkipVerify lc) (ServerName lc))])"
proof (intro conjI)
  show "Conn lc = None \<and> \<not> UseSSL lc \<and> \<not> SkipTLS lc \<longrightarrow>
      (\<forall>l. env_Dial env tr ''tcp'' (Host lc @ '':'' @ Itoa (Port lc)) = Inr l \<longrightarrow>
         snd (snd (Connect env lc tr)) =
           tr @ [CDial ''tcp'' (Host lc @ '':'' @ Itoa (Port lc)), CStartTLS l (tls_Config True [])])"
    by (simp add: Connect_def Let_def split: option.splits)
  show "\<forall>c cfg. CStartTLS c cfg \<in> set (drop (length tr) (snd (snd (Connect env lc tr)))) \<longrightarrow>
      cfg = tls_Config True [] \<and> \<not> UseSSL lc \<and> \<not> SkipTLS lc"
    by (simp add: Connect_def Let_def split: option.splits sum.splits)
  show "\<not> UseSSL lc \<longrightarrow>
      (\<forall>b s. fst (Connect env (lc\<lparr>InsecureSkipVerify := b, ServerName := s\<rparr>) tr) = fst (Connect env lc tr) \<and>
         snd (snd (Connect env (lc\<lparr>InsecureSkipVerify := b, ServerName := s\<rparr>) tr)) = snd (snd (Connect env lc tr)))"
    by (simp add: Connect_def Let_def split: option.splits sum.splits)
  show "Conn lc = None \<and> UseSSL lc \<longrightarrow>
      snd (snd (Connect env lc tr)) =
        tr @ [CDialTLS ''tcp'' (Host lc @ '':'' @ Itoa (Port lc))
                (tls_Config (InsecureSkipVerify lc) (ServerName lc))]"
    by (simp add: Connect_def Let_def split: option.splits sum.splits)
qed

theorem Connect_StartTLS_skips_verification_witness:
  "snd (snd (Connect example_env example_client [])) =
     [CDial ''tcp'' ''ldap.example.com:389'', CStartTLS 1 (tls_Config True [])] \<and>
   snd (snd (Connect example_env (example_client\<lparr>InsecureSkipVerify := True, ServerName := ''ldap''\<rparr>) [])) =
     [CDial ''tcp'' ''ldap.example.com:389'', CStartTLS 1 (tls_Config True [])] \<and>
   snd (snd (Connect example_env
      (example_client\<lparr>InsecureSkipVerify := True, ServerName := ''ldap'', UseSSL := True\<rparr>) [])) =
     [CDialTLS ''tcp'' ''ldap.example.com:389'' (tls_Config True ''ldap'')]"
proof -
  have pre: "Conn example_client = None \<and> \<not> UseSSL example_client \<and> \<not> SkipTLS example_client"
    by (simp add: example_client_def)
  have dial: "env_Dial example_env [] ''tcp'' (Host example_client @ '':'' @ Itoa (Port example_client)) = Inr 1"
    by (simp add: example_env_def)
  have addr: "Host example_client @ '':'' @ Itoa (Port example_client) = ''ldap.example.com:389''"
    by (simp add: example_client_def Itoa_389)
  have ssl: "Conn (example_client\<lparr>InsecureSkipVerify := True, ServerName := ''ldap'', UseSSL := True\<rparr>) = None \<and>
     UseSSL (example_client\<lparr>InsecureSkipVerify := True, ServerName := ''ldap'', UseSSL := True\<rparr>)"
    by (simp add: example_client_def)
  note plain = Connect_StartTLS_skips_verification [where lc = example_client and env = example_env and tr = "[]"]
  from plain pre dial
  have 1: "snd (snd (Connect example_env example_client [])) =
     [] @ [CDial ''tcp'' (Host example_client @ '':'' @ Itoa (Port example_client)), CStartTLS 1 (tls_Config True [])]"
    by blast
  from plain pre
  have 2: "snd (snd (Connect example_env (example_client\<lparr>InsecureSkipVerify := True, ServerName := ''ldap''\<rparr>) [])) =
     snd (snd (Connect example_env example_client []))"
    by blast
  from Connect_StartTLS_skips_verification [where env = example_env and tr = "[]"
      and lc = "example_client\<lparr>InsecureSkipVerify := True, ServerName := ''ldap'', UseSSL := True\<rparr>"] ssl
  have 3: "snd (snd (Connect example_env
      (example_client\<lparr>InsecureSkipVerify := True, ServerName := ''ldap'', UseSSL := True\<rparr>) [])) =
     [] @ [CDialTLS ''tcp''
       (Host (example_client\<lparr>InsecureSkipVerify := True, ServerName := ''ldap'', UseSSL := True\<rparr>) @ '':'' @
        Itoa (Port (example_client\<lparr>InsecureSkipVerify := True, ServerName := ''ldap'', UseSSL := True\<rparr>)))
       (tls_Config (InsecureSkipVerify (example_client\<lparr>InsecureSkipVerify := True, ServerName := ''ldap'', UseSSL := True\<rparr>))
          (ServerName (example_client\<lparr>InsecureSkipVerify := True, ServerName := ''ldap'', UseSSL := True\<rparr>)))]"
    by blast
  have 4: "snd (snd (Connect example_env example_client [])) =
     [CDial ''tcp'' ''ldap.example.com:389'', CStartTLS 1 (tls_Config True [])]"
    using 1 addr by simp
  have 5: "snd (snd (Connect example_env
      (example_client\<lparr>InsecureSkipVerify := True, ServerName := ''ldap'', UseSSL := True\<rparr>) [])) =
     [CDialTLS ''tcp'' ''ldap.example.com:389'' (tls_Config True ''ldap'')]"
    using 3 addr by simp
  show ?thesis using 2 4 5 by simp
qed

subsection \<open>Authenticate\<close>

lemma example_request:
  "user_SearchRequest example_env example_client u =
     SearchRequest ''dc=example,dc=com'' 2 0 0 0 False (''(uid='' @ u @ '')'')
       [''givenName'', ''sn'', ''mail'', ''uid'', ''dn'']"
  by (simp add: user_SearchRequest_def example_env_def example_client_def ScopeWholeSubtree_def
      NeverDerefAliases_def)

lemma example_bind_config:
  "BindDN example_client = ''cn=ro,dc=example,dc=com''" "BindPassword example_client = ''ropw''"
  "Attributes example_client = [''givenName'', ''sn'', ''mail'', ''uid'']"
  by (simp_all add: example_client_def)

lemma Connect_busy:
  "Connect busy_env example_client [] =
     (None, example_client\<lparr>Conn := Some 1\<rparr>,
      [CDial ''tcp'' ''ldap.example.com:389'', CStartTLS 1 (tls_Config True [])])"
  by (simp add: Connect_def busy_env_def example_env_def example_client_def Itoa_389)

lemma busy_request:
  "user_SearchRequest busy_env example_client u = user_SearchRequest example_env example_client u"
  by (simp add: user_SearchRequest_def busy_env_def)

lemma Connect_double:
  "Connect double_env example_client [] =
     (None, example_client\<lparr>Conn := Some 1\<rparr>,
      [CDial ''tcp'' ''ldap.example.com:389'', CStartTLS 1 (tls_Config True [])])"
  by (simp add: Connect_def double_env_def example_env_def example_client_def Itoa_389)

text \<open>
  C1. Let \<^verbatim>\<open>Connect\<close> succeed, the service bind (made when both credentials are set)
  succeed, and the search return exactly one entry \<open>e\<close>. The map returned is then the
  one that gives every configured attribute the entry's value for it
  (\<^verbatim>\<open>GetAttributeValue\<close>) and holds no other key. If the bind as \<open>DN e\<close> with the given
  password succeeds, \<^verbatim>\<open>Authenticate\<close> returns true, that map, and as error nothing
  but what the rebind as the service user returns (nil when it succeeds or is not
  configured). If that bind fails, it returns false, the same map and the bind's error.
\<close>

theorem Authenticate_one_entry:
  assumes "Connect env lc tr = (None, lc1, tr1)" and "Conn lc1 = Some c"
    and "BindDN lc \<noteq> [] \<and> BindPassword lc \<noteq> [] \<longrightarrow>
           env_Bind env tr1 c (BindDN lc) (BindPassword lc) = None"
    and "tr2 = (if BindDN lc \<noteq> [] \<and> BindPassword lc \<noteq> []
                then tr1 @ [CBind c (BindDN lc) (BindPassword lc)] else tr1)"
    and "env_Search env tr2 c (user_SearchRequest env lc username) = Inr [e]"
    and "tr3 = tr2 @ [CSearch c (user_SearchRequest env lc username)]"
    and "user = (\<lambda>a. if a \<in> set (Attributes lc) then Some (GetAttributeValue e a) else None)"
  shows "(env_Bind env tr3 c (DN e) password = None \<longrightarrow>
            fst (Authenticate env lc tr username password) =
              (True, Some user,
               if BindDN lc \<noteq> [] \<and> BindPassword lc \<noteq> []
               then env_Bind env (tr3 @ [CBind c (DN e) password]) c (BindDN lc) (BindPassword lc)
               else None)) \<and>
         (\<forall>err. env_Bind env tr3 c (DN e) password = Some err \<longrightarrow>
            fst (Authenticate env lc tr username password) = (False, Some user, Some err))"
proof -
  have "fst (Authenticate env lc tr username password) =
          fst (Authenticate_verify env lc c tr3 e password)"
    unfolding assms(6) by (rule Authenticate_found [OF assms(1-5)])
  then show ?thesis
    by (simp add: Authenticate_verify_result collect_user_eq assms(7))
qed

theorem Authenticate_one_entry_witness:
  "fst (Authenticate example_env example_client [] ''alice'' ''secret'') =
     (True,
      Some (\<lambda>a. if a \<in> set [''givenName'', ''sn'', ''mail'', ''uid'']
                 then Some (GetAttributeValue example_entry a) else None),
      None) \<and>
   fst (Authenticate example_env example_client [] ''alice'' ''wrong'') =
     (False,
      Some (\<lambda>a. if a \<in> set [''givenName'', ''sn'', ''mail'', ''uid'']
                 then Some (GetAttributeValue example_entry a) else None),
      Some (LdapError 49 ''Invalid Credentials'')) \<and>
   GetAttributeValue example_entry ''mail'' = ''a@example.com'' \<and>
   GetAttributeValue example_entry ''sn'' = []"
proof -
  let ?tr1 = "[CDial ''tcp'' ''ldap.example.com:389'', CStartTLS 1 (tls_Config True [])]"
  let ?tr2 = "?tr1 @ [CBind 1 ''cn=ro,dc=example,dc=com'' ''ropw'']"
  let ?tr3 = "?tr2 @ [CSearch 1 (user_SearchRequest example_env example_client ''alice'')]"
  let ?user = "\<lambda>a. if a \<in> set [''givenName'', ''sn'', ''mail'', ''uid'']
                 then Some (GetAttributeValue example_entry a) else None"
  have h2: "Conn (example_client\<lparr>Conn := Some 1\<rparr>) = Some 1" by simp
  have h3: "BindDN example_client \<noteq> [] \<and> BindPassword example_client \<noteq> [] \<longrightarrow>
      env_Bind example_env ?tr1 1 (BindDN example_client) (BindPassword example_client) = None"
    by (simp add: example_bind_config example_env_def)
  have h4: "?tr2 = (if BindDN example_client \<noteq> [] \<and> BindPassword example_client \<noteq> []
      then ?tr1 @ [CBind 1 (BindDN example_client) (BindPassword example_client)] else ?tr1)"
    by (simp add: example_bind_config)
  have h5: "env_Search example_env ?tr2 1 (user_SearchRequest example_env example_client ''alice'') =
      Inr [example_entry]"
    unfolding example_request by (simp add: example_env_def)
  have h6: "?tr3 = ?tr2 @ [CSearch 1 (user_SearchRequest example_env example_client ''alice'')]"
    by simp
  have h7: "?user = (\<lambda>a. if a \<in> set (Attributes example_client)
                 then Some (GetAttributeValue example_entry a) else None)"
    by (simp add: example_bind_config)
  have good: "env_Bind example_env ?tr3 1 (DN example_entry) ''secret'' = None"
    by (simp add: example_env_def)
  have bad: "env_Bind example_env ?tr3 1 (DN example_entry) ''wrong'' =
      Some (LdapError 49 ''Invalid Credentials'')"
    by (simp add: example_env_def example_entry_def)
  have rebind: "env_Bind example_env (?tr3 @ [CBind 1 (DN example_entry) ''secret'']) 1
      (BindDN example_client) (BindPassword example_client) = None"
    by (simp add: example_bind_config example_env_def)
  from Authenticate_one_entry [OF Connect_example h2 h3 h4 h5 h6 h7, of "''secret''"] good rebind
  have 1: "fst (Authenticate example_env example_client [] ''alice'' ''secret'') = (True, Some ?user, None)"
    by simp
  from Authenticate_one_entry [OF Connect_example h2 h3 h4 h5 h6 h7, of "''wrong''"] bad
  have 2: "fst (Authenticate example_env example_client [] ''alice'' ''wrong'') =
      (False, Some ?user, Some (LdapError 49 ''Invalid Credentials''))"
    by blast
  have 3: "GetAttributeValue example_entry ''mail'' = ''a@example.com''"
    "GetAttributeValue example_entry ''sn'' = []"
    by (simp_all add: GetAttributeValue_def GetAttributeValues_def example_entry_def)
  show ?thesis using 1 2 3 by simp
qed

text \<open>
  C2. Let \<^verbatim>\<open>Connect\<close> and the service bind succeed and the search return \<open>entries\<close>.
  With no entry \<^verbatim>\<open>Authenticate\<close> returns false, the nil map (which has no entries)
  and the error \<^verbatim>\<open>User does not exist\<close>; with more than one it returns false and the
  error \<^verbatim>\<open>Too many entries returned\<close>. In both cases the search is the last call
  made, no bind follows the service bind, and the whole outcome, trace included, is the
  same for every password.
\<close>

theorem Authenticate_not_one_entry:
  assumes "Connect env lc tr = (None, lc1, tr1)" and "Conn lc1 = Some c"
    and "BindDN lc \<noteq> [] \<and> BindPassword lc \<noteq> [] \<longrightarrow>
           env_Bind env tr1 c (BindDN lc) (BindPassword lc) = None"
    and "tr2 = (if BindDN lc \<noteq> [] \<and> BindPassword lc \<noteq> []
                then tr1 @ [CBind c (BindDN lc) (BindPassword lc)] else tr1)"
    and "env_Search env tr2 c (user_SearchRequest env lc username) = Inr entries"
    and "tr3 = tr2 @ [CSearch c (user_SearchRequest env lc username)]"
  shows "(entries = [] \<longrightarrow>
            Authenticate env lc tr username password =
              ((False, None, Some (ErrorsNew ''User does not exist'')), lc1, tr3) \<and>
            map_entries (fst (snd (fst (Authenticate env lc tr username password)))) = Map.empty) \<and>
         (1 < length entries \<longrightarrow>
            Authenticate env lc tr username password =
              ((False, None, Some (ErrorsNew ''Too many entries returned'')), lc1, tr3)) \<and>
         (length entries \<noteq> 1 \<longrightarrow>
            (\<forall>other. Authenticate env lc tr username other = Authenticate env lc tr username password) \<and>
            filter is_Bind (drop (length tr2) (snd (snd (Authenticate env lc tr username password)))) = [])"
proof -
  note unfold = Authenticate_connected [OF assms(1,2)]
  have zero: "Authenticate env lc tr username p =
      ((False, None, Some (ErrorsNew ''User does not exist'')), lc1, tr3)" if "entries = []" for p
    using assms(3,4,5) that unfolding assms(6)
    by (auto simp: unfold Authenticate_search_none)
  have many: "Authenticate env lc tr username p =
      ((False, None, Some (ErrorsNew ''Too many entries returned'')), lc1, tr3)" if "1 < length entries" for p
    using assms(3,4,5) that unfolding assms(6)
    by (auto simp: unfold Authenticate_search_many)
  have cases: "entries = [] \<or> 1 < length entries" if "length entries \<noteq> 1"
    using that by (cases entries) auto
  have len: "length tr3 = Suc (length tr2)" by (simp add: assms(6))
  have nobind: "filter is_Bind (drop (length tr2) tr3) = []" by (simp add: assms(6))
  show ?thesis
    using zero many cases nobind by (auto simp: map_entries_def)
qed

theorem Authenticate_not_one_entry_witness:
  "Authenticate example_env example_client [] ''bob'' ''x'' =
     ((False, None, Some (ErrorsNew ''User does not exist'')), example_client\<lparr>Conn := Some 1\<rparr>,
      [CDial ''tcp'' ''ldap.example.com:389'', CStartTLS 1 (tls_Config True []),
       CBind 1 ''cn=ro,dc=example,dc=com'' ''ropw'',
       CSearch 1 (SearchRequest ''dc=example,dc=com'' 2 0 0 0 False ''(uid=bob)''
         [''givenName'', ''sn'', ''mail'', ''uid'', ''dn''])]) \<and>
   Authenticate example_env example_client [] ''bob'' ''ropw'' =
     Authenticate example_env example_client [] ''bob'' ''x'' \<and>
   fst (Authenticate double_env example_client [] ''alice'' ''secret'') =
     (False, None, Some (ErrorsNew ''Too many entries returned''))"
proof -
  let ?tr1 = "[CDial ''tcp'' ''ldap.example.com:389'', CStartTLS 1 (tls_Config True [])]"
  let ?tr2 = "?tr1 @ [CBind 1 ''cn=ro,dc=example,dc=com'' ''ropw'']"
  let ?tr3 = "?tr2 @ [CSearch 1 (user_SearchRequest example_env example_client ''bob'')]"
  let ?tr3' = "?tr2 @ [CSearch 1 (user_SearchRequest double_env example_client ''alice'')]"
  have h2: "Conn (example_client\<lparr>Conn := Some 1\<rparr>) = Some 1" by simp
  have h3: "BindDN example_client \<noteq> [] \<and> BindPassword example_client \<noteq> [] \<longrightarrow>
      env_Bind example_env ?tr1 1 (BindDN example_client) (BindPassword example_client) = None"
    by (simp add: example_bind_config example_env_def)
  have h3': "BindDN example_client \<noteq> [] \<and> BindPassword example_client \<noteq> [] \<longrightarrow>
      env_Bind double_env ?tr1 1 (BindDN example_client) (BindPassword example_client) = None"
    by (simp add: example_bind_config double_env_def example_env_def)
  have h4: "?tr2 = (if BindDN example_client \<noteq> [] \<and> BindPassword example_client \<noteq> []
      then ?tr1 @ [CBind 1 (BindDN example_client) (BindPassword example_client)] else ?tr1)"
    by (simp add: example_bind_config)
  have h5: "env_Search example_env ?tr2 1 (user_SearchRequest example_env example_client ''bob'') = Inr []"
    unfolding example_request by (simp add: example_env_def)
  have h5': "env_Search double_env ?tr2 1 (user_SearchRequest double_env example_client ''alice'') =
      Inr [example_entry, example_entry]"
    by (simp add: double_env_def)
  have h6: "?tr3 = ?tr2 @ [CSearch 1 (user_SearchRequest example_env example_client ''bob'')]"
    by simp
  have h6': "?tr3' = ?tr2 @ [CSearch 1 (user_SearchRequest double_env example_client ''alice'')]"
    by simp
  note zero = Authenticate_not_one_entry [OF Connect_example h2 h3 h4 h5 h6, of "''x''"]
  from zero have 1: "Authenticate example_env example_client [] ''bob'' ''x'' =
      ((False, None, Some (ErrorsNew ''User does not exist'')), example_client\<lparr>Conn := Some 1\<rparr>, ?tr3)"
    by blast
  have ne: "length ([] :: Entry list) \<noteq> 1" by simp
  from zero ne have 2: "Authenticate example_env example_client [] ''bob'' ''ropw'' =
      Authenticate example_env example_client [] ''bob'' ''x''"
    by blast
  from Authenticate_not_one_entry [OF Connect_double h2 h3' h4 h5' h6', of "''secret''"]
  have 3: "Authenticate double_env example_client [] ''alice'' ''secret'' =
      ((False, None, Some (ErrorsNew ''Too many entries returned'')), example_client\<lparr>Conn := Some 1\<rparr>, ?tr3')"
    by simp
  show ?thesis using 1 2 3 by (simp add: example_request)
qed

text \<open>
  C3. Let the service credentials be configured, and let \<^verbatim>\<open>Connect\<close>, the first service
  bind, the search for exactly one entry \<open>e\<close> and the bind as \<open>DN e\<close> succeed. If the
  rebind as the service user then fails with \<open>err\<close>, \<^verbatim>\<open>Authenticate\<close> still returns
  true, together with the populated map and \<open>err\<close>.
\<close>

theorem Authenticate_rebind_failure:
  assumes "Connect env lc tr = (None, lc1, tr1)" and "Conn lc1 = Some c"
    and "BindDN lc \<noteq> [] \<and> BindPassword lc \<noteq> []"
    and "env_Bind env tr1 c (BindDN lc) (BindPassword lc) = None"
    and "tr2 = tr1 @ [CBind c (BindDN lc) (BindPassword lc)]"
    and "env_Search env tr2 c (user_SearchRequest env lc username) = Inr [e]"
    and "tr3 = tr2 @ [CSearch c (user_SearchRequest env lc username)]"
    and "env_Bind env tr3 c (DN e) password = None"
    and "env_Bind env (tr3 @ [CBind c (DN e) password]) c (BindDN lc) (BindPassword lc) = Some err"
  shows "fst (Authenticate env lc tr username password) =
           (True, Some (\<lambda>a. if a \<in> set (Attributes lc) then Some (GetAttributeValue e a) else None),
            Some err)"
proof -
  have a: "BindDN lc \<noteq> [] \<and> BindPassword lc \<noteq> [] \<longrightarrow>
           env_Bind env tr1 c (BindDN lc) (BindPassword lc) = None"
    using assms(4) by simp
  have b: "tr2 = (if BindDN lc \<noteq> [] \<and> BindPassword lc \<noteq> []
                then tr1 @ [CBind c (BindDN lc) (BindPassword lc)] else tr1)"
    using assms(3,5) by simp
  have "fst (Authenticate env lc tr username password) =
          fst (Authenticate_verify env lc c tr3 e password)"
    unfolding assms(7) by (rule Authenticate_found [OF assms(1,2) a b assms(6)])
  then show ?thesis
    using assms(3,8,9) by (simp add: Authenticate_verify_result collect_user_eq)
qed

theorem Authenticate_rebind_failure_witness:
  "fst (Authenticate busy_env example_client [] ''alice'' ''secret'') =
     (True,
      Some (\<lambda>a. if a \<in> set [''givenName'', ''sn'', ''mail'', ''uid'']
                 then Some (GetAttributeValue example_entry a) else None),
      Some (LdapError 51 ''Busy''))"
proof -
  let ?tr1 = "[CDial ''tcp'' ''ldap.example.com:389'', CStartTLS 1 (tls_Config True [])]"
  let ?tr2 = "?tr1 @ [CBind 1 ''cn=ro,dc=example,dc=com'' ''ropw'']"
  let ?tr3 = "?tr2 @ [CSearch 1 (user_SearchRequest busy_env example_client ''alice'')]"
  have h2: "Conn (example_client\<lparr>Conn := Some 1\<rparr>) = Some 1" by simp
  have h3: "BindDN example_client \<noteq> [] \<and> BindPassword example_client \<noteq> []"
    by (simp add: example_bind_config)
  have h4: "env_Bind busy_env ?tr1 1 (BindDN example_client) (BindPassword example_client) = None"
    by (simp add: example_bind_config busy_env_def example_env_def)
  have h5: "?tr2 = ?tr1 @ [CBind 1 (BindDN example_client) (BindPassword example_client)]"
    by (simp add: example_bind_config)
  have h6: "env_Search busy_env ?tr2 1 (user_SearchRequest busy_env example_client ''alice'') =
      Inr [example_entry]"
    unfolding busy_request example_request by (simp add: busy_env_def example_env_def)
  have h7: "?tr3 = ?tr2 @ [CSearch 1 (user_SearchRequest busy_env example_client ''alice'')]"
    by simp
  have h8: "env_Bind busy_env ?tr3 1 (DN example_entry) ''secret'' = None"
    by (simp add: busy_env_def example_env_def)
  have h9: "env_Bind busy_env (?tr3 @ [CBind 1 (DN example_entry) ''secret'']) 1
      (BindDN example_client) (BindPassword example_client) = Some (LdapError 51 ''Busy'')"
    by (simp add: busy_env_def)
  from Authenticate_rebind_failure [OF Connect_busy h2 h3 h4 h5 h6 h7 h8 h9]
  show ?thesis by (simp add: example_bind_config)
qed

subsection \<open>Filter and GetGroupsOfUser\<close>

lemma Filter_connected:
  assumes "Connect env lc tr = (None, lc1, tr1)" and "Conn lc1 = Some c"
  shows "Filter env lc tr f attrs =
     (case env_Search env tr1 c (SearchRequest (Base lc) ScopeWholeSubtree NeverDerefAliases 0 0 False f attrs) of
        Inl err \<Rightarrow> ((None, Some err), lc1,
          tr1 @ [CSearch c (SearchRequest (Base lc) ScopeWholeSubtree NeverDerefAliases 0 0 False f attrs)])
      | Inr entries \<Rightarrow> ((Some (flatten_entries [] entries), None), lc1,
          tr1 @ [CSearch c (SearchRequest (Base lc) ScopeWholeSubtree NeverDerefAliases 0 0 False f attrs)]))"
proof -
  from Connect_ok [OF assms(1)] assms(2) have lc1: "lc1 = lc\<lparr>Conn := Some c\<rparr>" by auto
  show ?thesis
    unfolding Filter_def assms(1) by (simp add: lc1 Let_def split: sum.splits)
qed

lemma Filter_trace:
  "\<exists>new. snd (snd (Filter env lc tr f attrs)) = tr @ new \<and> filter is_Bind new = []"
proof (cases "Connect env lc tr")
  case (fields r lc1 tr1)
  from Connect_trace [OF fields] obtain new where new: "tr1 = tr @ new" "filter is_Bind new = []"
    by blast
  show ?thesis
  proof (cases r)
    case None
    with fields have ok: "Connect env lc tr = (None, lc1, tr1)" by simp
    from Connect_ok [OF ok] obtain c where c: "Conn lc1 = Some c" by blast
    show ?thesis
      using new by (simp add: Filter_connected [OF ok c] split: sum.splits)
  next
    case (Some err)
    with fields new show ?thesis by (simp add: Filter_def)
  qed
qed

text \<open>
  C4. When \<^verbatim>\<open>Connect\<close> succeeds and the search returns \<open>entries\<close>, \<^verbatim>\<open>Filter\<close>
  returns no error and the values of all attributes of all entries, entry by entry,
  attribute by attribute, value by value. The length of the result is the sum over the
  entries of the sum over their attributes of the number of values. With no entry the
  result is the empty, non-nil slice.
\<close>

theorem Filter_flattens:
  assumes "Connect env lc tr = (None, lc1, tr1)" and "Conn lc1 = Some c"
    and "env_Search env tr1 c
           (SearchRequest (Base lc) ScopeWholeSubtree NeverDerefAliases 0 0 False filter_expr attributes) =
         Inr entries"
  shows "fst (Filter env lc tr filter_expr attributes) =
           (Some (concat (map (\<lambda>entry. concat (map Values (EntryAttributes entry))) entries)), None) \<and>
         length (concat (map (\<lambda>entry. concat (map Values (EntryAttributes entry))) entries)) =
           (\<Sum>entry\<leftarrow>entries. \<Sum>attr\<leftarrow>EntryAttributes entry. length (Values attr)) \<and>
         (entries = [] \<longrightarrow> fst (Filter env lc tr filter_expr attributes) = (Some [], None))"
proof -
  have len: "length (concat (map Values attrs)) = (\<Sum>attr\<leftarrow>attrs. length (Values attr))"
    for attrs :: "EntryAttribute list"
    by (simp add: length_concat comp_def)
  have "length (concat (map (\<lambda>entry. concat (map Values (EntryAttributes entry))) entries)) =
      (\<Sum>entry\<leftarrow>entries. length (concat (map Values (EntryAttributes entry))))"
    by (simp add: length_concat comp_def)
  then have total: "length (concat (map (\<lambda>entry. concat (map Values (EntryAttributes entry))) entries)) =
      (\<Sum>entry\<leftarrow>entries. \<Sum>attr\<leftarrow>EntryAttributes entry. length (Values attr))"
    by (simp add: len)
  have res: "fst (Filter env lc tr filter_expr attributes) =
      (Some (concat (map (\<lambda>entry. concat (map Values (EntryAttributes entry))) entries)), None)"
    by (simp add: Filter_connected [OF assms(1,2)] assms(3) flatten_entries_eq)
  show ?thesis using res total by auto
qed

theorem Filter_flattens_witness:
  "fst (Filter example_env example_client [] ''(uid=alice)'' [''cn'']) =
     (Some [''Alice'', ''a@example.com'', ''alice@example.com'', ''alice''], None) \<and>
   (\<Sum>entry\<leftarrow>[example_entry]. \<Sum>attr\<leftarrow>EntryAttributes entry. length (Values attr)) = 4 \<and>
   fst (Filter example_env example_client [] ''(uid=bob)'' [''cn'']) = (Some [], None)"
proof -
  let ?tr1 = "[CDial ''tcp'' ''ldap.example.com:389'', CStartTLS 1 (tls_Config True [])]"
  have h2: "Conn (example_client\<lparr>Conn := Some 1\<rparr>) = Some 1" by simp
  have h3: "env_Search example_env ?tr1 1
      (SearchRequest (Base example_client) ScopeWholeSubtree NeverDerefAliases 0 0 False ''(uid=alice)'' [''cn'']) =
      Inr [example_entry]"
    by (simp add: example_env_def)
  have h3': "env_Search example_env ?tr1 1
      (SearchRequest (Base example_client) ScopeWholeSubtree NeverDerefAliases 0 0 False ''(uid=bob)'' [''cn'']) =
      Inr []"
    by (simp add: example_env_def)
  have vals: "concat (map (\<lambda>entry. concat (map Values (EntryAttributes entry))) [example_entry]) =
      [''Alice'', ''a@example.com'', ''alice@example.com'', ''alice'']"
    by (simp add: example_entry_def)
  from Filter_flattens [OF Connect_example h2 h3]
  have 1: "fst (Filter example_env example_client [] ''(uid=alice)'' [''cn'']) =
      (Some [''Alice'', ''a@example.com'', ''alice@example.com'', ''alice''], None)"
    and 2: "(\<Sum>entry\<leftarrow>[example_entry]. \<Sum>attr\<leftarrow>EntryAttributes entry. length (Values attr)) = 4"
    unfolding vals by simp_all
  from Filter_flattens [OF Connect_example h2 h3']
  have 3: "fst (Filter example_env example_client [] ''(uid=bob)'' [''cn'']) = (Some [], None)"
    by simp
  show ?thesis using 1 2 3 by simp
qed

text \<open>
  C5. For every client, also one with service credentials, the calls that \<^verbatim>\<open>Filter\<close>
  and \<^verbatim>\<open>GetGroupsOfUser\<close> add to the trace contain no bind; \<^verbatim>\<open>GetGroupsOfUser\<close> is
  \<^verbatim>\<open>Filter\<close> on the formatted group filter and the attribute \<^verbatim>\<open>cn\<close>.
\<close>

theorem Filter_never_binds:
  "(\<exists>new. snd (snd (Filter env lc tr filter_expr attributes)) = tr @ new \<and> filter is_Bind new = []) \<and>
   (\<exists>new. snd (snd (GetGroupsOfUser env lc tr username)) = tr @ new \<and> filter is_Bind new = []) \<and>
   GetGroupsOfUser env lc tr username =
     Filter env lc tr (env_Sprintf env (GroupFilter lc) username) [''cn'']"
  using Filter_trace by (simp add: GetGroupsOfUser_def)

theorem Filter_never_binds_witness:
  "BindDN example_client \<noteq> [] \<and> BindPassword example_client \<noteq> [] \<and>
   filter is_Bind (snd (snd (Filter example_env example_client [] ''(uid=alice)'' [''cn'']))) = [] \<and>
   filter is_Bind (snd (snd (GetGroupsOfUser example_env example_client [] ''alice''))) = []"
proof -
  from Filter_never_binds [of example_env example_client "[]" "''(uid=alice)''" "[''cn'']" "''alice''"]
  have "filter is_Bind (snd (snd (Filter example_env example_client [] ''(uid=alice)'' [''cn'']))) = []"
    and "filter is_Bind (snd (snd (GetGroupsOfUser example_env example_client [] ''alice''))) = []"
    by auto
  then show ?thesis by (simp add: example_bind_config)
qed

subsection \<open>The write operations\<close>

lemma Authenticate_verify_trace:
  "\<exists>rest. snd (Authenticate_verify env lc c tr e p) = tr @ CBind c (DN e) p # rest"
  by (simp add: Authenticate_verify_def Let_def split: option.splits)

lemma Authenticate_search_trace:
  "\<exists>rest. snd (Authenticate_search env lc c tr u p) = tr @ CSearch c (user_SearchRequest env lc u) # rest"
proof (cases "env_Search env tr c (user_SearchRequest env lc u)")
  case (Inl err)
  then show ?thesis by (simp add: Authenticate_search_def)
next
  case (Inr entries)
  obtain rest where "snd (Authenticate_verify env lc c (tr @ [CSearch c (user_SearchRequest env lc u)])
        (entries ! 0) p) =
      (tr @ [CSearch c (user_SearchRequest env lc u)]) @ CBind c (DN (entries ! 0)) p # rest"
    using Authenticate_verify_trace by blast
  with Inr show ?thesis by (simp add: Authenticate_search_def Let_def)
qed

lemma Authenticate_first_call:
  assumes "Connect env lc tr = (None, lc1, tr1)" and "Conn lc1 = Some c"
  shows "\<exists>rest. snd (snd (Authenticate env lc tr u p)) =
     tr1 @ (if BindDN lc \<noteq> [] \<and> BindPassword lc \<noteq> []
            then CBind c (BindDN lc) (BindPassword lc) else CSearch c (user_SearchRequest env lc u)) # rest"
proof (cases "BindDN lc \<noteq> [] \<and> BindPassword lc \<noteq> []")
  case True
  obtain rest where "snd (Authenticate_search env lc c (tr1 @ [CBind c (BindDN lc) (BindPassword lc)]) u p) =
      (tr1 @ [CBind c (BindDN lc) (BindPassword lc)]) @ CSearch c (user_SearchRequest env lc u) # rest"
    using Authenticate_search_trace by blast
  with True show ?thesis
    by (simp add: Authenticate_connected [OF assms] split: option.splits)
next
  case False
  obtain rest where "snd (Authenticate_search env lc c tr1 u p) =
      tr1 @ CSearch c (user_SearchRequest env lc u) # rest"
    using Authenticate_search_trace by blast
  with False show ?thesis
    by (auto simp: Authenticate_connected [OF assms])
qed

lemma AddUser_connected:
  assumes "Connect env lc tr = (None, lc1, tr1)" and "Conn lc1 = Some c"
    and "req = AddRequest (''cn='' @ username @ '',ou='' @ ou @ '','' @ Base lc)
           [PartialAttribute ''objectClass'' [''inetOrgPerson''],
            PartialAttribute ''userPassword'' [password],
            PartialAttribute ''sn'' [username],
            PartialAttribute ''uid'' [username]]"
  shows "AddUser env lc tr username password ou =
     (if BindDN lc \<noteq> [] \<and> BindPassword lc \<noteq> [] then
        (case env_Bind env tr1 c (BindDN lc) (BindPassword lc) of
           Some err \<Rightarrow> (Some err, lc1, tr1 @ [CBind c (BindDN lc) (BindPassword lc)])
         | None \<Rightarrow> (env_Add env (tr1 @ [CBind c (BindDN lc) (BindPassword lc)]) c req, lc1,
                    tr1 @ [CBind c (BindDN lc) (BindPassword lc), CAdd c req]))
      else (env_Add env tr1 c req, lc1, tr1 @ [CAdd c req]))"
proof -
  from Connect_ok [OF assms(1)] assms(2) have lc1: "lc1 = lc\<lparr>Conn := Some c\<rparr>" by auto
  show ?thesis
    unfolding AddUser_def assms(1)
    by (simp add: lc1 assms(3) Let_def NewAddRequest_def Attribute_def split: option.splits)
qed

lemma AddUserAccount_connected:
  assumes "Connect env lc tr = (None, lc1, tr1)" and "Conn lc1 = Some c"
    and "req = AddRequest (''cn='' @ Username account @ '',ou='' @ OU account @ '','' @ Base lc)
           [PartialAttribute ''objectClass'' [''inetOrgPerson'', ''posixAccount''],
            PartialAttribute ''uidNumber'' [Itoa (UID account)],
            PartialAttribute ''gidNumber'' [Itoa (GID account)],
            PartialAttribute ''userPassword'' [Password account],
            PartialAttribute ''homeDirectory'' [''/home/'' @ Username account],
            PartialAttribute ''loginShell'' [''/bin/bash''],
            PartialAttribute ''sn'' [Username account],
            PartialAttribute ''uid'' [Username account]]"
  shows "AddUserAccount env lc tr account =
     (if BindDN lc \<noteq> [] \<and> BindPassword lc \<noteq> [] then
        (case env_Bind env tr1 c (BindDN lc) (BindPassword lc) of
           Some err \<Rightarrow> (Some err, lc1, tr1 @ [CBind c (BindDN lc) (BindPassword lc)])
         | None \<Rightarrow> (env_Add env (tr1 @ [CBind c (BindDN lc) (BindPassword lc)]) c req, lc1,
                    tr1 @ [CBind c (BindDN lc) (BindPassword lc), CAdd c req]))
      else (env_Add env tr1 c req, lc1, tr1 @ [CAdd c req]))"
proof -
  from Connect_ok [OF assms(1)] assms(2) have lc1: "lc1 = lc\<lparr>Conn := Some c\<rparr>" by auto
  show ?thesis
    unfolding AddUserAccount_def assms(1)
    by (simp add: lc1 assms(3) Let_def NewAddRequest_def Attribute_def split: option.splits)
qed

lemma ChangeAttribute_connected:
  assumes "Connect env lc tr = (None, lc1, tr1)" and "Conn lc1 = Some c"
    and "req = ModifyRequest dn [] [] [PartialAttribute attribute vals]"
  shows "ChangeAttribute env lc tr dn attribute vals =
     (if BindDN lc \<noteq> [] \<and> BindPassword lc \<noteq> [] then
        (case env_Bind env tr1 c (BindDN lc) (BindPassword lc) of
           Some err \<Rightarrow> (Some err, lc1, tr1 @ [CBind c (BindDN lc) (BindPassword lc)])
         | None \<Rightarrow> (env_Modify env (tr1 @ [CBind c (BindDN lc) (BindPassword lc)]) c req, lc1,
                    tr1 @ [CBind c (BindDN lc) (BindPassword lc), CModify c req]))
      else (env_Modify env tr1 c req, lc1, tr1 @ [CModify c req]))"
proof -
  from Connect_ok [OF assms(1)] assms(2) have lc1: "lc1 = lc\<lparr>Conn := Some c\<rparr>" by auto
  show ?thesis
    unfolding ChangeAttribute_def assms(1)
    by (simp add: lc1 assms(3) Let_def NewModifyRequest_def split: option.splits)
qed

lemma Connect_no_modify:
  "Connect env lc tr = (r, lc', tr') \<Longrightarrow> \<exists>new. tr' = tr @ new \<and> (\<forall>c req. CModify c req \<notin> set new)"
  by (auto simp: Connect_def Let_def split: option.splits sum.splits if_splits)

lemma ChangeAttribute_modify_calls:
  "CModify c req \<in> set (drop (length tr) (snd (snd (ChangeAttribute env lc tr dn attribute vals)))) \<Longrightarrow>
   req = ModifyRequest dn [] [] [PartialAttribute attribute vals]"
proof (cases "Connect env lc tr")
  case (fields r lc1 tr1)
  from Connect_no_modify [OF fields] obtain new
    where new: "tr1 = tr @ new" "\<forall>c req. CModify c req \<notin> set new"
    by blast
  assume a: "CModify c req \<in> set (drop (length tr) (snd (snd (ChangeAttribute env lc tr dn attribute vals))))"
  show ?thesis
  proof (cases r)
    case None
    with fields have ok: "Connect env lc tr = (None, lc1, tr1)" by simp
    from Connect_ok [OF ok] obtain c' where c': "Conn lc1 = Some c'" by blast
    show ?thesis
      using a new
      by (auto simp: ChangeAttribute_connected [OF ok c' refl] split: if_splits option.splits)
  next
    case (Some err)
    with fields new a show ?thesis by (simp add: ChangeAttribute_def)
  qed
qed

lemma Connect_half_configured:
  "Connect example_env (example_client\<lparr>BindPassword := []\<rparr>) [] =
     (None, example_client\<lparr>BindPassword := [], Conn := Some 1\<rparr>,
      [CDial ''tcp'' ''ldap.example.com:389'', CStartTLS 1 (tls_Config True [])])"
  by (simp add: Connect_def example_env_def example_client_def Itoa_389)

text \<open>
  C9. \<^verbatim>\<open>ChangeMembers\<close>, \<^verbatim>\<open>ChangePassword\<close> and \<^verbatim>\<open>ChangeDescription\<close> are
  \<^verbatim>\<open>ChangeAttribute\<close> on the DN \<^verbatim>\<open>cn=<name>,ou=<ou>,<base>\<close> (for the description:
  \<^verbatim>\<open>ou=<ou>,<base>\<close>) with the attribute \<^verbatim>\<open>memberUid\<close>, \<^verbatim>\<open>userPassword\<close> and
  \<^verbatim>\<open>description\<close>. Every modify request that \<^verbatim>\<open>ChangeAttribute\<close> sends has no add and
  no delete change and exactly one replace change, the attribute with the given values;
  and it is sent, as the last call, whenever \<^verbatim>\<open>Connect\<close> and the service bind succeed.
\<close>

theorem Change_wrappers:
  "ChangeMembers env lc tr members groupname ou =
     ChangeAttribute env lc tr (''cn='' @ groupname @ '',ou='' @ ou @ '','' @ Base lc) ''memberUid'' members \<and>
   ChangePassword env lc tr password username ou =
     ChangeAttribute env lc tr (''cn='' @ username @ '',ou='' @ ou @ '','' @ Base lc) ''userPassword'' [password] \<and>
   ChangeDescription env lc tr description ou =
     ChangeAttribute env lc tr (''ou='' @ ou @ '','' @ Base lc) ''description'' [description] \<and>
   (\<forall>c req. CModify c req \<in> set (drop (length tr) (snd (snd (ChangeAttribute env lc tr dn attribute vals)))) \<longrightarrow>
      req = ModifyRequest dn [] [] [PartialAttribute attribute vals]) \<and>
   (\<forall>lc1 tr1 c.
      Connect env lc tr = (None, lc1, tr1) \<and> Conn lc1 = Some c \<and>
      (BindDN lc \<noteq> [] \<and> BindPassword lc \<noteq> [] \<longrightarrow> env_Bind env tr1 c (BindDN lc) (BindPassword lc) = None) \<longrightarrow>
      (\<exists>tr2. ChangeAttribute env lc tr dn attribute vals =
         (env_Modify env tr2 c (ModifyRequest dn [] [] [PartialAttribute attribute vals]), lc1,
          tr2 @ [CModify c (ModifyRequest dn [] [] [PartialAttribute attribute vals])])))"
proof (intro conjI allI impI)
  show "ChangeMembers env lc tr members groupname ou =
     ChangeAttribute env lc tr (''cn='' @ groupname @ '',ou='' @ ou @ '','' @ Base lc) ''memberUid'' members"
    by (simp add: ChangeMembers_def)
  show "ChangePassword env lc tr password username ou =
     ChangeAttribute env lc tr (''cn='' @ username @ '',ou='' @ ou @ '','' @ Base lc) ''userPassword'' [password]"
    by (simp add: ChangePassword_def)
  show "ChangeDescription env lc tr description ou =
     ChangeAttribute env lc tr (''ou='' @ ou @ '','' @ Base lc) ''description'' [description]"
    by (simp add: ChangeDescription_def)
next
  fix c req
  assume "CModify c req \<in> set (drop (length tr) (snd (snd (ChangeAttribute env lc tr dn attribute vals))))"
  then show "req = ModifyRequest dn [] [] [PartialAttribute attribute vals]"
    by (rule ChangeAttribute_modify_calls)
next
  fix lc1 tr1 c
  assume a: "Connect env lc tr = (None, lc1, tr1) \<and> Conn lc1 = Some c \<and>
      (BindDN lc \<noteq> [] \<and> BindPassword lc \<noteq> [] \<longrightarrow> env_Bind env tr1 c (BindDN lc) (BindPassword lc) = None)"
  then have ok: "Connect env lc tr = (None, lc1, tr1)" and c: "Conn lc1 = Some c" by simp_all
  show "\<exists>tr2. ChangeAttribute env lc tr dn attribute vals =
         (env_Modify env tr2 c (ModifyRequest dn [] [] [PartialAttribute attribute vals]), lc1,
          tr2 @ [CModify c (ModifyRequest dn [] [] [PartialAttribute attribute vals])])"
  proof (cases "BindDN lc \<noteq> [] \<and> BindPassword lc \<noteq> []")
    case True
    with a have "ChangeAttribute env lc tr dn attribute vals =
        (env_Modify env (tr1 @ [CBind c (BindDN lc) (BindPassword lc)]) c
           (ModifyRequest dn [] [] [PartialAttribute attribute vals]), lc1,
         (tr1 @ [CBind c (BindDN lc) (BindPassword lc)]) @
           [CModify c (ModifyRequest dn [] [] [PartialAttribute attribute vals])])"
      by (simp add: ChangeAttribute_connected [OF ok c refl])
    then show ?thesis by blast
  next
    case False
    then have "ChangeAttribute env lc tr dn attribute vals =
        (env_Modify env tr1 c (ModifyRequest dn [] [] [PartialAttribute attribute vals]), lc1,
         tr1 @ [CModify c (ModifyRequest dn [] [] [PartialAttribute attribute vals])])"
      by (auto simp: ChangeAttribute_connected [OF ok c refl])
    then show ?thesis by blast
  qed
qed

theorem Change_wrappers_witness:
  "(\<exists>tr2. ChangePassword example_env example_client [] ''newpw'' ''alice'' ''people'' =
      (env_Modify example_env tr2 1
         (ModifyRequest ''cn=alice,ou=people,dc=example,dc=com'' [] [] [PartialAttribute ''userPassword'' [''newpw'']]),
       example_client\<lparr>Conn := Some 1\<rparr>,
       tr2 @ [CModify 1
         (ModifyRequest ''cn=alice,ou=people,dc=example,dc=com'' [] [] [PartialAttribute ''userPassword'' [''newpw'']])])) \<and>
   (\<exists>tr2. ChangeMembers example_env example_client [] [''alice'', ''bob''] ''staff'' ''groups'' =
      (env_Modify example_env tr2 1
         (ModifyRequest ''cn=staff,ou=groups,dc=example,dc=com'' [] [] [PartialAttribute ''memberUid'' [''alice'', ''bob'']]),
       example_client\<lparr>Conn := Some 1\<rparr>,
       tr2 @ [CModify 1
         (ModifyRequest ''cn=staff,ou=groups,dc=example,dc=com'' [] [] [PartialAttribute ''memberUid'' [''alice'', ''bob'']])])) \<and>
   (\<exists>tr2. ChangeDescription example_env example_client [] ''All staff'' ''groups'' =
      (env_Modify example_env tr2 1
         (ModifyRequest ''ou=groups,dc=example,dc=com'' [] [] [PartialAttribute ''description'' [''All staff'']]),
       example_client\<lparr>Conn := Some 1\<rparr>,
       tr2 @ [CModify 1
         (ModifyRequest ''ou=groups,dc=example,dc=com'' [] [] [PartialAttribute ''description'' [''All staff'']])]))"
proof -
  let ?tr1 = "[CDial ''tcp'' ''ldap.example.com:389'', CStartTLS 1 (tls_Config True [])]"
  have pre: "Connect example_env example_client [] = (None, example_client\<lparr>Conn := Some 1\<rparr>, ?tr1) \<and>
      Conn (example_client\<lparr>Conn := Some 1\<rparr>) = Some 1 \<and>
      (BindDN example_client \<noteq> [] \<and> BindPassword example_client \<noteq> [] \<longrightarrow>
         env_Bind example_env ?tr1 1 (BindDN example_client) (BindPassword example_client) = None)"
    unfolding Connect_example by (simp add: example_bind_config example_env_def)
  have base: "Base example_client = ''dc=example,dc=com''" by (simp add: example_client_def)
  note pw = Change_wrappers [where env = example_env and lc = example_client and tr = "[]"
      and password = "''newpw''" and username = "''alice''" and ou = "''people''"
      and dn = "''cn=alice,ou=people,dc=example,dc=com''" and attribute = "''userPassword''"
      and vals = "[''newpw'']"]
  note mem = Change_wrappers [where env = example_env and lc = example_client and tr = "[]"
      and members = "[''alice'', ''bob'']" and groupname = "''staff''" and ou = "''groups''"
      and dn = "''cn=staff,ou=groups,dc=example,dc=com''" and attribute = "''memberUid''"
      and vals = "[''alice'', ''bob'']"]
  note descr = Change_wrappers [where env = example_env and lc = example_client and tr = "[]"
      and description = "''All staff''" and ou = "''groups''"
      and dn = "''ou=groups,dc=example,dc=com''" and attribute = "''description''"
      and vals = "[''All staff'']"]
  from pw have pw1: "ChangePassword example_env example_client [] ''newpw'' ''alice'' ''people'' =
      ChangeAttribute example_env example_client [] ''cn=alice,ou=people,dc=example,dc=com'' ''userPassword'' [''newpw'']"
    by (simp add: base)
  from pw pre have pw2: "\<exists>tr2. ChangeAttribute example_env example_client []
        ''cn=alice,ou=people,dc=example,dc=com'' ''userPassword'' [''newpw''] =
      (env_Modify example_env tr2 1
         (ModifyRequest ''cn=alice,ou=people,dc=example,dc=com'' [] [] [PartialAttribute ''userPassword'' [''newpw'']]),
       example_client\<lparr>Conn := Some 1\<rparr>,
       tr2 @ [CModify 1
         (ModifyRequest ''cn=alice,ou=people,dc=example,dc=com'' [] [] [PartialAttribute ''userPassword'' [''newpw'']])])"
    by blast
  from mem have mem1: "ChangeMembers example_env example_client [] [''alice'', ''bob''] ''staff'' ''groups'' =
      ChangeAttribute example_env example_client [] ''cn=staff,ou=groups,dc=example,dc=com'' ''memberUid'' [''alice'', ''bob'']"
    by (simp add: base)
  from mem pre have mem2: "\<exists>tr2. ChangeAttribute example_env example_client []
        ''cn=staff,ou=groups,dc=example,dc=com'' ''memberUid'' [''alice'', ''bob''] =
      (env_Modify example_env tr2 1
         (ModifyRequest ''cn=staff,ou=groups,dc=example,dc=com'' [] [] [PartialAttribute ''memberUid'' [''alice'', ''bob'']]),
       example_client\<lparr>Conn := Some 1\<rparr>,
       tr2 @ [CModify 1
         (ModifyRequest ''cn=staff,ou=groups,dc=example,dc=com'' [] [] [PartialAttribute ''memberUid'' [''alice'', ''bob'']])])"
    by blast
  from descr have descr1: "ChangeDescription example_env example_client [] ''All staff'' ''groups'' =
      ChangeAttribute example_env example_client [] ''ou=groups,dc=example,dc=com'' ''description'' [''All staff'']"
    by (simp add: base)
  from descr pre have descr2: "\<exists>tr2. ChangeAttribute example_env example_client []
        ''ou=groups,dc=example,dc=com'' ''description'' [''All staff''] =
      (env_Modify example_env tr2 1
         (ModifyRequest ''ou=groups,dc=example,dc=com'' [] [] [PartialAttribute ''description'' [''All staff'']]),
       example_client\<lparr>Conn := Some 1\<rparr>,
       tr2 @ [CModify 1
         (ModifyRequest ''ou=groups,dc=example,dc=com'' [] [] [PartialAttribute ''description'' [''All staff'']])])"
    by blast
  show ?thesis
    unfolding pw1 mem1 descr1 using pw2 mem2 descr2 by blast
qed

lemma Authenticate_verify_full:
  "Authenticate_verify env lc c tr e p =
     (case env_Bind env tr c (DN e) p of
        Some err \<Rightarrow> ((False, Some (collect_user (Attributes lc) e), Some err), tr @ [CBind c (DN e) p])
      | None \<Rightarrow>
          if BindDN lc \<noteq> [] \<and> BindPassword lc \<noteq> [] then
            ((True, Some (collect_user (Attributes lc) e),
              env_Bind env (tr @ [CBind c (DN e) p]) c (BindDN lc) (BindPassword lc)),
             tr @ [CBind c (DN e) p, CBind c (BindDN lc) (BindPassword lc)])
          else ((True, Some (collect_user (Attributes lc) e), None), tr @ [CBind c (DN e) p]))"
  by (simp add: Authenticate_verify_def Let_def split: option.splits)

text \<open>
  C10. After a successful \<^verbatim>\<open>Connect\<close>, the next call of \<^verbatim>\<open>Authenticate\<close>,
  \<^verbatim>\<open>AddUser\<close>, \<^verbatim>\<open>AddUserAccount\<close> and \<^verbatim>\<open>ChangeAttribute\<close> is the bind with
  \<^verbatim>\<open>BindDN\<close> and \<^verbatim>\<open>BindPassword\<close> if and only if both are non-empty. When one of
  them is empty, the whole outcome is fixed and holds no service bind: \<^verbatim>\<open>AddUser\<close>,
  \<^verbatim>\<open>AddUserAccount\<close> and \<^verbatim>\<open>ChangeAttribute\<close> send their add or modify request
  alone and return its result; \<^verbatim>\<open>Authenticate\<close> sends the search and, for exactly
  one entry, the bind as that entry, with no rebind after it. When both are non-empty,
  the service bind comes first, a failure of it is returned, and \<^verbatim>\<open>Authenticate\<close>
  binds with them once more after a successful bind as the user, and only then.
\<close>

theorem service_bind_iff_both_credentials:
  assumes "Connect env lc tr = (None, lc1, tr1)" and "Conn lc1 = Some c"
    and "service_bind = CBind c (BindDN lc) (BindPassword lc)"
    and "add_user = AddRequest (''cn='' @ username @ '',ou='' @ ou @ '','' @ Base lc)
           [PartialAttribute ''objectClass'' [''inetOrgPerson''],
            PartialAttribute ''userPassword'' [password],
            PartialAttribute ''sn'' [username],
            PartialAttribute ''uid'' [username]]"
    and "add_account = AddRequest (''cn='' @ Username account @ '',ou='' @ OU account @ '','' @ Base lc)
           [PartialAttribute ''objectClass'' [''inetOrgPerson'', ''posixAccount''],
            PartialAttribute ''uidNumber'' [Itoa (UID account)],
            PartialAttribute ''gidNumber'' [Itoa (GID account)],
            PartialAttribute ''userPassword'' [Password account],
            PartialAttribute ''homeDirectory'' [''/home/'' @ Username account],
            PartialAttribute ''loginShell'' [''/bin/bash''],
            PartialAttribute ''sn'' [Username account],
            PartialAttribute ''uid'' [Username account]]"
    and "modify = ModifyRequest dn [] [] [PartialAttribute attribute vals]"
    and "search = CSearch c (user_SearchRequest env lc username)"
  shows "(prefix (tr1 @ [service_bind]) (snd (snd (Authenticate env lc tr username password))) \<longleftrightarrow>
            BindDN lc \<noteq> [] \<and> BindPassword lc \<noteq> []) \<and>
         (prefix (tr1 @ [service_bind]) (snd (snd (AddUser env lc tr username password ou))) \<longleftrightarrow>
            BindDN lc \<noteq> [] \<and> BindPassword lc \<noteq> []) \<and>
         (prefix (tr1 @ [service_bind]) (snd (snd (AddUserAccount env lc tr account))) \<longleftrightarrow>
            BindDN lc \<noteq> [] \<and> BindPassword lc \<noteq> []) \<and>
         (prefix (tr1 @ [service_bind]) (snd (snd (ChangeAttribute env lc tr dn attribute vals))) \<longleftrightarrow>
            BindDN lc \<noteq> [] \<and> BindPassword lc \<noteq> []) \<and>
         (BindDN lc = [] \<or> BindPassword lc = [] \<longrightarrow>
            prefix (tr1 @ [CSearch c (user_SearchRequest env lc username)])
              (snd (snd (Authenticate env lc tr username password))) \<and>
            AddUser env lc tr username password ou = (env_Add env tr1 c add_user, lc1, tr1 @ [CAdd c add_user]) \<and>
            AddUserAccount env lc tr account = (env_Add env tr1 c add_account, lc1, tr1 @ [CAdd c add_account]) \<and>
            ChangeAttribute env lc tr dn attribute vals =
              (env_Modify env tr1 c modify, lc1, tr1 @ [CModify c modify]) \<and>
            Authenticate env lc tr username password =
              (case env_Search env tr1 c (user_SearchRequest env lc username) of
                 Inl err \<Rightarrow> ((False, None, Some err), lc1, tr1 @ [search])
               | Inr entries \<Rightarrow>
                   if length entries < 1 then
                     ((False, None, Some (ErrorsNew ''User does not exist'')), lc1, tr1 @ [search])
                   else if length entries > 1 then
                     ((False, None, Some (ErrorsNew ''Too many entries returned'')), lc1, tr1 @ [search])
                   else
                     (case env_Bind env (tr1 @ [search]) c (DN (entries ! 0)) password of
                        Some err \<Rightarrow>
                          ((False, Some (collect_user (Attributes lc) (entries ! 0)), Some err), lc1,
                           tr1 @ [search, CBind c (DN (entries ! 0)) password])
                      | None \<Rightarrow>
                          ((True, Some (collect_user (Attributes lc) (entries ! 0)), None), lc1,
                           tr1 @ [search, CBind c (DN (entries ! 0)) password])))) \<and>
         (BindDN lc \<noteq> [] \<and> BindPassword lc \<noteq> [] \<longrightarrow>
            AddUser env lc tr username password ou =
              (case env_Bind env tr1 c (BindDN lc) (BindPassword lc) of
                 Some err \<Rightarrow> (Some err, lc1, tr1 @ [service_bind])
               | None \<Rightarrow> (env_Add env (tr1 @ [service_bind]) c add_user, lc1,
                          tr1 @ [service_bind, CAdd c add_user])) \<and>
            AddUserAccount env lc tr account =
              (case env_Bind env tr1 c (BindDN lc) (BindPassword lc) of
                 Some err \<Rightarrow> (Some err, lc1, tr1 @ [service_bind])
               | None \<Rightarrow> (env_Add env (tr1 @ [service_bind]) c add_account, lc1,
                          tr1 @ [service_bind, CAdd c add_account])) \<and>
            ChangeAttribute env lc tr dn attribute vals =
              (case env_Bind env tr1 c (BindDN lc) (BindPassword lc) of
                 Some err \<Rightarrow> (Some err, lc1, tr1 @ [service_bind])
               | None \<Rightarrow> (env_Modify env (tr1 @ [service_bind]) c modify, lc1,
                          tr1 @ [service_bind, CModify c modify])) \<and>
            Authenticate env lc tr username password =
              (case env_Bind env tr1 c (BindDN lc) (BindPassword lc) of
                 Some err \<Rightarrow> ((False, None, Some err), lc1, tr1 @ [service_bind])
               | None \<Rightarrow>
                   (case env_Search env (tr1 @ [service_bind]) c (user_SearchRequest env lc username) of
                      Inl err \<Rightarrow> ((False, None, Some err), lc1, tr1 @ [service_bind, search])
                    | Inr entries \<Rightarrow>
                        if length entries < 1 then
                          ((False, None, Some (ErrorsNew ''User does not exist'')), lc1,
                           tr1 @ [service_bind, search])
                        else if length entries > 1 then
                          ((False, None, Some (ErrorsNew ''Too many entries returned'')), lc1,
                           tr1 @ [service_bind, search])
                        else
                          (case env_Bind env (tr1 @ [service_bind, search]) c (DN (entries ! 0)) password of
                             Some err \<Rightarrow>
                               ((False, Some (collect_user (Attributes lc) (entries ! 0)), Some err), lc1,
                                tr1 @ [service_bind, search, CBind c (DN (entries ! 0)) password])
                           | None \<Rightarrow>
                               ((True, Some (collect_user (Attributes lc) (entries ! 0)),
                                 env_Bind env (tr1 @ [service_bind, search, CBind c (DN (entries ! 0)) password])
                                   c (BindDN lc) (BindPassword lc)), lc1,
                                tr1 @ [service_bind, search, CBind c (DN (entries ! 0)) password,
                                       service_bind])))))"
proof -
  note ok = assms(1,2)
  obtain rest where auth: "snd (snd (Authenticate env lc tr username password)) =
     tr1 @ (if BindDN lc \<noteq> [] \<and> BindPassword lc \<noteq> []
            then CBind c (BindDN lc) (BindPassword lc)
            else CSearch c (user_SearchRequest env lc username)) # rest"
    using Authenticate_first_call [OF ok] by blast
  have 1: "prefix (tr1 @ [service_bind]) (snd (snd (Authenticate env lc tr username password))) \<longleftrightarrow>
            BindDN lc \<noteq> [] \<and> BindPassword lc \<noteq> []"
    unfolding auth assms(3) by simp
  have 2: "prefix (tr1 @ [service_bind]) (snd (snd (AddUser env lc tr username password ou))) \<longleftrightarrow>
            BindDN lc \<noteq> [] \<and> BindPassword lc \<noteq> []"
    unfolding assms(3) by (simp add: AddUser_connected [OF ok refl] split: option.splits)
  have 3: "prefix (tr1 @ [service_bind]) (snd (snd (AddUserAccount env lc tr account))) \<longleftrightarrow>
            BindDN lc \<noteq> [] \<and> BindPassword lc \<noteq> []"
    unfolding assms(3) by (simp add: AddUserAccount_connected [OF ok refl] split: option.splits)
  have 4: "prefix (tr1 @ [service_bind]) (snd (snd (ChangeAttribute env lc tr dn attribute vals))) \<longleftrightarrow>
            BindDN lc \<noteq> [] \<and> BindPassword lc \<noteq> []"
    unfolding assms(3) by (simp add: ChangeAttribute_connected [OF ok refl] split: option.splits)
  have 5: "prefix (tr1 @ [CSearch c (user_SearchRequest env lc username)])
              (snd (snd (Authenticate env lc tr username password)))"
    if "BindDN lc = [] \<or> BindPassword lc = []"
    unfolding auth using that by auto
  have 6: "AddUser env lc tr username password ou = (env_Add env tr1 c add_user, lc1, tr1 @ [CAdd c add_user])"
    if "BindDN lc = [] \<or> BindPassword lc = []"
    using that by (auto simp: AddUser_connected [OF ok assms(4)])
  have 7: "AddUserAccount env lc tr account = (env_Add env tr1 c add_account, lc1, tr1 @ [CAdd c add_account])"
    if "BindDN lc = [] \<or> BindPassword lc = []"
    using that by (auto simp: AddUserAccount_connected [OF ok assms(5)])
  have 8: "ChangeAttribute env lc tr dn attribute vals =
              (env_Modify env tr1 c modify, lc1, tr1 @ [CModify c modify])"
    if "BindDN lc = [] \<or> BindPassword lc = []"
    using that by (auto simp: ChangeAttribute_connected [OF ok assms(6)])
  have 9: "Authenticate env lc tr username password =
              (case env_Search env tr1 c (user_SearchRequest env lc username) of
                 Inl err \<Rightarrow> ((False, None, Some err), lc1, tr1 @ [search])
               | Inr entries \<Rightarrow>
                   if length entries < 1 then
                     ((False, None, Some (ErrorsNew ''User does not exist'')), lc1, tr1 @ [search])
                   else if length entries > 1 then
                     ((False, None, Some (ErrorsNew ''Too many entries returned'')), lc1, tr1 @ [search])
                   else
                     (case env_Bind env (tr1 @ [search]) c (DN (entries ! 0)) password of
                        Some err \<Rightarrow>
                          ((False, Some (collect_user (Attributes lc) (entries ! 0)), Some err), lc1,
                           tr1 @ [search, CBind c (DN (entries ! 0)) password])
                      | None \<Rightarrow>
                          ((True, Some (collect_user (Attributes lc) (entries ! 0)), None), lc1,
                           tr1 @ [search, CBind c (DN (entries ! 0)) password])))"
    if "BindDN lc = [] \<or> BindPassword lc = []"
    using that unfolding assms(7)
    by (auto simp: Authenticate_connected [OF ok] Authenticate_search_def Authenticate_verify_full Let_def
        split: sum.splits option.splits)
  have 10: "AddUser env lc tr username password ou =
              (case env_Bind env tr1 c (BindDN lc) (BindPassword lc) of
                 Some err \<Rightarrow> (Some err, lc1, tr1 @ [service_bind])
               | None \<Rightarrow> (env_Add env (tr1 @ [service_bind]) c add_user, lc1,
                          tr1 @ [service_bind, CAdd c add_user]))"
    if "BindDN lc \<noteq> [] \<and> BindPassword lc \<noteq> []"
    using that unfolding assms(3) by (simp add: AddUser_connected [OF ok assms(4)])
  have 11: "AddUserAccount env lc tr account =
              (case env_Bind env tr1 c (BindDN lc) (BindPassword lc) of
                 Some err \<Rightarrow> (Some err, lc1, tr1 @ [service_bind])
               | None \<Rightarrow> (env_Add env (tr1 @ [service_bind]) c add_account, lc1,
                          tr1 @ [service_bind, CAdd c add_account]))"
    if "BindDN lc \<noteq> [] \<and> BindPassword lc \<noteq> []"
    using that unfolding assms(3) by (simp add: AddUserAccount_connected [OF ok assms(5)])
  have 12: "ChangeAttribute env lc tr dn attribute vals =
              (case env_Bind env tr1 c (BindDN lc) (BindPassword lc) of
                 Some err \<Rightarrow> (Some err, lc1, tr1 @ [service_bind])
               | None \<Rightarrow> (env_Modify env (tr1 @ [service_bind]) c modify, lc1,
                          tr1 @ [service_bind, CModify c modify]))"
    if "BindDN lc \<noteq> [] \<and> BindPassword lc \<noteq> []"
    using that unfolding assms(3) by (simp add: ChangeAttribute_connected [OF ok assms(6)])
  have 13: "Authenticate env lc tr username password =
              (case env_Bind env tr1 c (BindDN lc) (BindPassword lc) of
                 Some err \<Rightarrow> ((False, None, Some err), lc1, tr1 @ [service_bind])
               | None \<Rightarrow>
                   (case env_Search env (tr1 @ [service_bind]) c (user_SearchRequest env lc username) of
                      Inl err \<Rightarrow> ((False, None, Some err), lc1, tr1 @ [service_bind, search])
                    | Inr entries \<Rightarrow>
                        if length entries < 1 then
                          ((False, None, Some (ErrorsNew ''User does not exist'')), lc1,
                           tr1 @ [service_bind, search])
                        else if length entries > 1 then
                          ((False, None, Some (ErrorsNew ''Too many entries returned'')), lc1,
                           tr1 @ [service_bind, search])
                        else
                          (case env_Bind env (tr1 @ [service_bind, search]) c (DN (entries ! 0)) password of
                             Some err \<Rightarrow>
                               ((False, Some (collect_user (Attributes lc) (entries ! 0)), Some err), lc1,
                                tr1 @ [service_bind, search, CBind c (DN (entries ! 0)) password])
                           | None \<Rightarrow>
                               ((True, Some (collect_user (Attributes lc) (entries ! 0)),
                                 env_Bind env (tr1 @ [service_bind, search, CBind c (DN (entries ! 0)) password])
                                   c (BindDN lc) (BindPassword lc)), lc1,
                                tr1 @ [service_bind, search, CBind c (DN (entries ! 0)) password,
                                       service_bind]))))"
    if "BindDN lc \<noteq> [] \<and> BindPassword lc \<noteq> []"
    using that unfolding assms(3,7)
    by (auto simp: Authenticate_connected [OF ok] Authenticate_search_def Authenticate_verify_full Let_def
        split: sum.splits option.splits)
  show ?thesis
    apply (intro conjI impI)
    using 1 2 3 4 5 6 7 8 9 10 11 12 13 by blast+
qed

theorem service_bind_iff_both_credentials_witness:
  "AddUser example_env (example_client\<lparr>BindPassword := []\<rparr>) [] ''carol'' ''pw'' ''people'' =
     (None, example_client\<lparr>BindPassword := [], Conn := Some 1\<rparr>,
      [CDial ''tcp'' ''ldap.example.com:389'', CStartTLS 1 (tls_Config True []),
       CAdd 1 (AddRequest ''cn=carol,ou=people,dc=example,dc=com''
         [PartialAttribute ''objectClass'' [''inetOrgPerson''],
          PartialAttribute ''userPassword'' [''pw''],
          PartialAttribute ''sn'' [''carol''],
          PartialAttribute ''uid'' [''carol'']])]) \<and>
   \<not> prefix [CDial ''tcp'' ''ldap.example.com:389'', CStartTLS 1 (tls_Config True []),
              CBind 1 ''cn=ro,dc=example,dc=com'' []]
        (snd (snd (Authenticate example_env (example_client\<lparr>BindPassword := []\<rparr>) [] ''alice'' ''secret''))) \<and>
   prefix [CDial ''tcp'' ''ldap.example.com:389'', CStartTLS 1 (tls_Config True []),
           CBind 1 ''cn=ro,dc=example,dc=com'' ''ropw'']
        (snd (snd (ChangeAttribute example_env example_client [] ''cn=x'' ''description'' [''d'']))) \<and>
   Authenticate example_env (example_client\<lparr>BindPassword := []\<rparr>) [] ''alice'' ''secret'' =
     ((True, Some (collect_user [''givenName'', ''sn'', ''mail'', ''uid''] example_entry), None),
      example_client\<lparr>BindPassword := [], Conn := Some 1\<rparr>,
      [CDial ''tcp'' ''ldap.example.com:389'', CStartTLS 1 (tls_Config True []),
       CSearch 1 (SearchRequest ''dc=example,dc=com'' 2 0 0 0 False ''(uid=alice)''
         [''givenName'', ''sn'', ''mail'', ''uid'', ''dn'']),
       CBind 1 ''uid=alice,dc=example,dc=com'' ''secret'']) \<and>
   Authenticate example_env example_client [] ''alice'' ''secret'' =
     ((True, Some (collect_user [''givenName'', ''sn'', ''mail'', ''uid''] example_entry), None),
      example_client\<lparr>Conn := Some 1\<rparr>,
      [CDial ''tcp'' ''ldap.example.com:389'', CStartTLS 1 (tls_Config True []),
       CBind 1 ''cn=ro,dc=example,dc=com'' ''ropw'',
       CSearch 1 (SearchRequest ''dc=example,dc=com'' 2 0 0 0 False ''(uid=alice)''
         [''givenName'', ''sn'', ''mail'', ''uid'', ''dn'']),
       CBind 1 ''uid=alice,dc=example,dc=com'' ''secret'',
       CBind 1 ''cn=ro,dc=example,dc=com'' ''ropw''])"
proof -
  let ?half = "example_client\<lparr>BindPassword := []\<rparr>"
  let ?tr1 = "[CDial ''tcp'' ''ldap.example.com:389'', CStartTLS 1 (tls_Config True [])]"
  let ?req = "SearchRequest ''dc=example,dc=com'' 2 0 0 0 False ''(uid=alice)''
         [''givenName'', ''sn'', ''mail'', ''uid'', ''dn'']"
  have h2: "Conn (example_client\<lparr>BindPassword := [], Conn := Some 1\<rparr>) = Some 1" by simp
  have h2': "Conn (example_client\<lparr>Conn := Some 1\<rparr>) = Some 1" by simp
  have half: "BindDN ?half = ''cn=ro,dc=example,dc=com''" "BindPassword ?half = []"
    "Base ?half = ''dc=example,dc=com''" "Attributes ?half = [''givenName'', ''sn'', ''mail'', ''uid'']"
    by (simp_all add: example_client_def)
  have half_request: "user_SearchRequest example_env ?half ''alice'' = ?req"
    by (simp add: user_SearchRequest_def example_env_def example_client_def ScopeWholeSubtree_def
        NeverDerefAliases_def)
  have found: "env_Search example_env tr c ?req = Inr [example_entry]" for tr c
    by (simp add: example_env_def)
  have dn: "DN example_entry = ''uid=alice,dc=example,dc=com''" by (simp add: example_entry_def)
  have user_ok: "env_Bind example_env tr c ''uid=alice,dc=example,dc=com'' ''secret'' = None" for tr c
    by (simp add: example_env_def example_entry_def)
  have service_ok: "env_Bind example_env tr c ''cn=ro,dc=example,dc=com'' ''ropw'' = None" for tr c
    by (simp add: example_env_def)
  note skip = service_bind_iff_both_credentials [OF Connect_half_configured h2 refl refl refl refl refl,
      where username = "''carol''" and password = "''pw''" and ou = "''people''"]
  note skip_auth = service_bind_iff_both_credentials [OF Connect_half_configured h2 refl refl refl refl refl,
      where username = "''alice''" and password = "''secret''"]
  note both = service_bind_iff_both_credentials [OF Connect_example h2' refl refl refl refl refl,
      where dn = "''cn=x''" and attribute = "''description''" and vals = "[''d'']"
        and username = "''alice''" and password = "''secret''"]
  have skipped: "BindDN ?half = [] \<or> BindPassword ?half = []" using half(2) by simp
  have configured: "BindDN example_client \<noteq> [] \<and> BindPassword example_client \<noteq> []"
    by (simp add: example_bind_config)
  from skip skipped have "AddUser example_env ?half [] ''carol'' ''pw'' ''people'' =
     (env_Add example_env [CDial ''tcp'' ''ldap.example.com:389'', CStartTLS 1 (tls_Config True [])] 1
        (AddRequest (''cn='' @ ''carol'' @ '',ou='' @ ''people'' @ '','' @ Base ?half)
          [PartialAttribute ''objectClass'' [''inetOrgPerson''],
           PartialAttribute ''userPassword'' [''pw''],
           PartialAttribute ''sn'' [''carol''],
           PartialAttribute ''uid'' [''carol'']]),
      example_client\<lparr>BindPassword := [], Conn := Some 1\<rparr>,
      [CDial ''tcp'' ''ldap.example.com:389'', CStartTLS 1 (tls_Config True [])] @
      [CAdd 1 (AddRequest (''cn='' @ ''carol'' @ '',ou='' @ ''people'' @ '','' @ Base ?half)
          [PartialAttribute ''objectClass'' [''inetOrgPerson''],
           PartialAttribute ''userPassword'' [''pw''],
           PartialAttribute ''sn'' [''carol''],
           PartialAttribute ''uid'' [''carol'']])])"
    by blast
  then have 1: "AddUser example_env ?half [] ''carol'' ''pw'' ''people'' =
     (None, example_client\<lparr>BindPassword := [], Conn := Some 1\<rparr>,
      [CDial ''tcp'' ''ldap.example.com:389'', CStartTLS 1 (tls_Config True []),
       CAdd 1 (AddRequest ''cn=carol,ou=people,dc=example,dc=com''
         [PartialAttribute ''objectClass'' [''inetOrgPerson''],
          PartialAttribute ''userPassword'' [''pw''],
          PartialAttribute ''sn'' [''carol''],
          PartialAttribute ''uid'' [''carol'']])])"
    by (simp add: half(3) example_env_def)
  from skip_auth half(2) have "\<not> prefix
      ([CDial ''tcp'' ''ldap.example.com:389'', CStartTLS 1 (tls_Config True [])] @
       [CBind 1 (BindDN ?half) (BindPassword ?half)])
      (snd (snd (Authenticate example_env ?half [] ''alice'' ''secret'')))"
    by blast
  then have 2: "\<not> prefix [CDial ''tcp'' ''ldap.example.com:389'', CStartTLS 1 (tls_Config True []),
              CBind 1 ''cn=ro,dc=example,dc=com'' []]
        (snd (snd (Authenticate example_env ?half [] ''alice'' ''secret'')))"
    by (simp add: half)
  from both configured have "prefix
      ([CDial ''tcp'' ''ldap.example.com:389'', CStartTLS 1 (tls_Config True [])] @
       [CBind 1 (BindDN example_client) (BindPassword example_client)])
      (snd (snd (ChangeAttribute example_env example_client [] ''cn=x'' ''description'' [''d''])))"
    by blast
  then have 3: "prefix [CDial ''tcp'' ''ldap.example.com:389'', CStartTLS 1 (tls_Config True []),
           CBind 1 ''cn=ro,dc=example,dc=com'' ''ropw'']
        (snd (snd (ChangeAttribute example_env example_client [] ''cn=x'' ''description'' [''d''])))"
    by (simp add: example_bind_config)
  from skip_auth skipped have "Authenticate example_env ?half [] ''alice'' ''secret'' =
      (case env_Search example_env ?tr1 1 (user_SearchRequest example_env ?half ''alice'') of
         Inl err \<Rightarrow> ((False, None, Some err), example_client\<lparr>BindPassword := [], Conn := Some 1\<rparr>,
           ?tr1 @ [CSearch 1 (user_SearchRequest example_env ?half ''alice'')])
       | Inr entries \<Rightarrow>
           if length entries < 1 then
             ((False, None, Some (ErrorsNew ''User does not exist'')),
              example_client\<lparr>BindPassword := [], Conn := Some 1\<rparr>,
              ?tr1 @ [CSearch 1 (user_SearchRequest example_env ?half ''alice'')])
           else if length entries > 1 then
             ((False, None, Some (ErrorsNew ''Too many entries returned'')),
              example_client\<lparr>BindPassword := [], Conn := Some 1\<rparr>,
              ?tr1 @ [CSearch 1 (user_SearchRequest example_env ?half ''alice'')])
           else
             (case env_Bind example_env (?tr1 @ [CSearch 1 (user_SearchRequest example_env ?half ''alice'')]) 1
                     (DN (entries ! 0)) ''secret'' of
                Some err \<Rightarrow>
                  ((False, Some (collect_user (Attributes ?half) (entries ! 0)), Some err),
                   example_client\<lparr>BindPassword := [], Conn := Some 1\<rparr>,
                   ?tr1 @ [CSearch 1 (user_SearchRequest example_env ?half ''alice''),
                           CBind 1 (DN (entries ! 0)) ''secret''])
              | None \<Rightarrow>
                  ((True, Some (collect_user (Attributes ?half) (entries ! 0)), None),
                   example_client\<lparr>BindPassword := [], Conn := Some 1\<rparr>,
                   ?tr1 @ [CSearch 1 (user_SearchRequest example_env ?half ''alice''),
                           CBind 1 (DN (entries ! 0)) ''secret''])))"
    by blast
  then have 4: "Authenticate example_env ?half [] ''alice'' ''secret'' =
     ((True, Some (collect_user [''givenName'', ''sn'', ''mail'', ''uid''] example_entry), None),
      example_client\<lparr>BindPassword := [], Conn := Some 1\<rparr>,
      [CDial ''tcp'' ''ldap.example.com:389'', CStartTLS 1 (tls_Config True []),
       CSearch 1 ?req, CBind 1 ''uid=alice,dc=example,dc=com'' ''secret''])"
    unfolding half_request found by (simp add: dn user_ok half(4))
  from both configured have "Authenticate example_env example_client [] ''alice'' ''secret'' =
      (case env_Bind example_env ?tr1 1 (BindDN example_client) (BindPassword example_client) of
         Some err \<Rightarrow> ((False, None, Some err), example_client\<lparr>Conn := Some 1\<rparr>,
           ?tr1 @ [CBind 1 (BindDN example_client) (BindPassword example_client)])
       | None \<Rightarrow>
           (case env_Search example_env (?tr1 @ [CBind 1 (BindDN example_client) (BindPassword example_client)]) 1
                   (user_SearchRequest example_env example_client ''alice'') of
              Inl err \<Rightarrow> ((False, None, Some err), example_client\<lparr>Conn := Some 1\<rparr>,
                ?tr1 @ [CBind 1 (BindDN example_client) (BindPassword example_client),
                        CSearch 1 (user_SearchRequest example_env example_client ''alice'')])
            | Inr entries \<Rightarrow>
                if length entries < 1 then
                  ((False, None, Some (ErrorsNew ''User does not exist'')), example_client\<lparr>Conn := Some 1\<rparr>,
                   ?tr1 @ [CBind 1 (BindDN example_client) (BindPassword example_client),
                           CSearch 1 (user_SearchRequest example_env example_client ''alice'')])
                else if length entries > 1 then
                  ((False, None, Some (ErrorsNew ''Too many entries returned'')), example_client\<lparr>Conn := Some 1\<rparr>,
                   ?tr1 @ [CBind 1 (BindDN example_client) (BindPassword example_client),
                           CSearch 1 (user_SearchRequest example_env example_client ''alice'')])
                else
                  (case env_Bind example_env
                          (?tr1 @ [CBind 1 (BindDN example_client) (BindPassword example_client),
                                   CSearch 1 (user_SearchRequest example_env example_client ''alice'')]) 1
                          (DN (entries ! 0)) ''secret'' of
                     Some err \<Rightarrow>
                       ((False, Some (collect_user (Attributes example_client) (entries ! 0)), Some err),
                        example_client\<lparr>Conn := Some 1\<rparr>,
                        ?tr1 @ [CBind 1 (BindDN example_client) (BindPassword example_client),
                                CSearch 1 (user_SearchRequest example_env example_client ''alice''),
                                CBind 1 (DN (entries ! 0)) ''secret''])
                   | None \<Rightarrow>
                       ((True, Some (collect_user (Attributes example_client) (entries ! 0)),
                         env_Bind example_env
                           (?tr1 @ [CBind 1 (BindDN example_client) (BindPassword example_client),
                                    CSearch 1 (user_SearchRequest example_env example_client ''alice''),
                                    CBind 1 (DN (entries ! 0)) ''secret'']) 1
                           (BindDN example_client) (BindPassword example_client)),
                        example_client\<lparr>Conn := Some 1\<rparr>,
                        ?tr1 @ [CBind 1 (BindDN example_client) (BindPassword example_client),
                                CSearch 1 (user_SearchRequest example_env example_client ''alice''),
                                CBind 1 (DN (entries ! 0)) ''secret'',
                                CBind 1 (BindDN example_client) (BindPassword example_client)]))))"
    by blast
  then have 5: "Authenticate example_env example_client [] ''alice'' ''secret'' =
     ((True, Some (collect_user [''givenName'', ''sn'', ''mail'', ''uid''] example_entry), None),
      example_client\<lparr>Conn := Some 1\<rparr>,
      [CDial ''tcp'' ''ldap.example.com:389'', CStartTLS 1 (tls_Config True []),
       CBind 1 ''cn=ro,dc=example,dc=com'' ''ropw'',
       CSearch 1 ?req, CBind 1 ''uid=alice,dc=example,dc=com'' ''secret'',
       CBind 1 ''cn=ro,dc=example,dc=com'' ''ropw''])"
    unfolding example_request example_bind_config service_ok
    by (simp add: found dn user_ok service_ok)
  show ?thesis using 1 2 3 4 5 by blast
qed

end
